theory Spec2Isabelle
  imports Complex_Main "HOL-Library.Multiset" "HOL-Library.List_Lexorder" "HOL-Library.Char_ord"
    "HOL-Library.Log_Nat"
begin

section \<open>simplecoin/utils.py: shared vocabulary\<close>

text \<open>
  Python values that reach the message functions. \<open>update_dict\<close> of \<open>verify_message\<close>
  starts with \<open>MAKEANON = False\<close> and \<open>SETDONATE = 0\<close> and later stores the strings cut out
  of the message; \<open>PyNone\<close> stands for a value that is neither a number nor a string.
\<close>

datatype pyval = PyNone | PyBool bool | PyInt int | PyStr string

text \<open>
  Exceptions as values. \<open>CommandException\<close> carries its message text. The others are
  the exceptions that leave the functions below without being turned into a
  \<open>CommandException\<close>.
\<close>

datatype exc =
    CommandException string
  | InvalidOperation
  | TypeError
  | IndexError
  | ValueError
  | NameError
  | OverflowError
  | ZeroDivisionError

text \<open>
  A naive \<open>datetime\<close> is the number of microseconds since the epoch, a \<open>timedelta\<close> a
  number of microseconds. A \<open>timedelta\<close> is kept normalised by Python as
  (days, seconds, microseconds) with \<open>0 \<le> seconds < 86400\<close>; the attribute \<open>.seconds\<close>
  reads that middle component, \<open>total_seconds()\<close> the whole span.
\<close>

type_synonym datetime = int
type_synonym timedelta = int

definition td_seconds :: "timedelta \<Rightarrow> int" where
  "td_seconds d = (d div 1000000) mod 86400"

definition minutes :: "int \<Rightarrow> timedelta" where
  "minutes n = n * 60000000"

definition hours :: "int \<Rightarrow> timedelta" where
  "hours n = n * 3600000000"

section \<open>The decimal module, as far as validate_message_vals uses it\<close>

text \<open>
  \<open>Decimal(value)\<close> of Python 2.7: an int (or bool) converts exactly; a string is stripped
  of surrounding whitespace and matched against
  \<open>[sign] (digits [. digits] | . digits) [E [sign] digits]\<close>, \<open>Inf\<close>, \<open>Infinity\<close>, \<open>NaN\<close> or
  \<open>sNaN\<close> (letters in either case, NaN with an optional digit payload); a string that does
  not match raises \<open>InvalidOperation\<close>; any other object raises \<open>TypeError\<close>.
  Finite values are exact rationals here.
\<close>

datatype decimal = DFinite rat | DInfinity bool | DNaN bool

definition is_digit :: "char \<Rightarrow> bool" where
  "is_digit c = (c \<in> set ''0123456789'')"

definition is_space :: "char \<Rightarrow> bool" where
  "is_space c = (c \<in> {CHR '' '', CHR 0x09, CHR 0x0A, CHR 0x0B, CHR 0x0C, CHR 0x0D})"

definition strip :: "string \<Rightarrow> string" where
  "strip s = rev (dropWhile is_space (rev (dropWhile is_space s)))"

definition lower_char :: "char \<Rightarrow> char" where
  "lower_char c =
     (if c \<in> set ''ABCDEFGHIJKLMNOPQRSTUVWXYZ'' then char_of (of_char c + (32::nat)) else c)"

definition lower :: "string \<Rightarrow> string" where
  "lower s = map lower_char s"

definition digit_val :: "char \<Rightarrow> nat" where
  "digit_val c = of_char c - 48"

definition digits_val :: "string \<Rightarrow> nat" where
  "digits_val ds = foldl (\<lambda>n c. 10 * n + digit_val c) 0 ds"

definition pow10 :: "int \<Rightarrow> rat" where
  "pow10 e = (if 0 \<le> e then 10 ^ nat e else 1 / 10 ^ nat (- e))"

definition split_sign :: "string \<Rightarrow> bool \<times> string" where
  "split_sign s =
     (case s of
        c # r \<Rightarrow> if c = CHR ''-'' then (True, r) else if c = CHR ''+'' then (False, r)
                 else (False, s)
      | [] \<Rightarrow> (False, s))"

definition parse_exponent :: "string \<Rightarrow> int option" where
  "parse_exponent s =
     (case s of
        [] \<Rightarrow> Some 0
      | c # r \<Rightarrow>
          if lower_char c = CHR ''e'' then
            (let (neg, ds) = split_sign r
             in if ds \<noteq> [] \<and> list_all is_digit ds
                then Some (if neg then - int (digits_val ds) else int (digits_val ds))
                else None)
          else None)"

definition parse_number :: "string \<Rightarrow> rat option" where
  "parse_number s =
     (let ip = takeWhile is_digit s;
          r1 = dropWhile is_digit s;
          dot = (r1 \<noteq> [] \<and> hd r1 = CHR ''.'');
          fp = (if dot then takeWhile is_digit (tl r1) else []);
          r2 = (if dot then dropWhile is_digit (tl r1) else r1)
      in if ip = [] \<and> fp = [] then None
         else (case parse_exponent r2 of
                 None \<Rightarrow> None
               | Some e \<Rightarrow>
                   Some (of_nat (digits_val (ip @ fp)) * pow10 (e - int (length fp)))))"

definition parse_special :: "bool \<Rightarrow> string \<Rightarrow> decimal option" where
  "parse_special neg s =
     (let l = lower s
      in if l = ''inf'' \<or> l = ''infinity'' then Some (DInfinity neg)
         else if take 3 l = ''nan'' \<and> list_all is_digit (drop 3 l) then Some (DNaN False)
         else if take 4 l = ''snan'' \<and> list_all is_digit (drop 4 l) then Some (DNaN True)
         else None)"

definition Decimal_str :: "string \<Rightarrow> exc + decimal" where
  "Decimal_str s =
     (let (neg, body) = split_sign (strip s)
      in case parse_number body of
           Some q \<Rightarrow> Inr (DFinite (if neg then - q else q))
         | None \<Rightarrow>
             (case parse_special neg body of
                Some d \<Rightarrow> Inr d
              | None \<Rightarrow> Inl InvalidOperation))"

definition Decimal :: "pyval \<Rightarrow> exc + decimal" where
  "Decimal v =
     (case v of
        PyInt n \<Rightarrow> Inr (DFinite (of_int n))
      | PyBool b \<Rightarrow> Inr (DFinite (if b then 1 else 0))
      | PyStr s \<Rightarrow> Decimal_str s
      | PyNone \<Rightarrow> Inl TypeError)"

text \<open>Rounding to an integer, ties to the even neighbour (\<open>ROUND_HALF_EVEN\<close>, the default).\<close>

definition round_half_even :: "rat \<Rightarrow> int" where
  "round_half_even y =
     (let f = \<lfloor>y\<rfloor>; d = y - of_int f
      in if d < 1 / 2 then f
         else if 1 / 2 < d then f + 1
         else if even f then f else f + 1)"

text \<open>
  \<open>d.quantize(Decimal('0.01'))\<close> in the default context (28 digits, \<open>InvalidOperation\<close>
  trapped): a finite value is rounded to two places and the call raises when the result
  needs more than 28 digits; an infinity and a signalling NaN raise; a quiet NaN is
  returned as it is.
\<close>

definition quantize_cents :: "decimal \<Rightarrow> exc + decimal" where
  "quantize_cents d =
     (case d of
        DFinite q \<Rightarrow>
          (let c = round_half_even (q * 100)
           in if 10 ^ 28 \<le> \<bar>c\<bar> then Inl InvalidOperation
              else Inr (DFinite (of_int c / 100)))
      | DInfinity _ \<Rightarrow> Inl InvalidOperation
      | DNaN signalling \<Rightarrow> if signalling then Inl InvalidOperation else Inr (DNaN False))"

text \<open>\<open>d / 100\<close>: exact on a value that has just been quantized to two places.\<close>

definition div_100 :: "decimal \<Rightarrow> decimal" where
  "div_100 d = (case d of DFinite q \<Rightarrow> DFinite (q / 100) | _ \<Rightarrow> d)"

text \<open>
  \<open>d > x\<close> and \<open>d < x\<close> against a number: exact on finite values; an ordering comparison
  that involves a NaN raises \<open>InvalidOperation\<close> (Python 2.7).
\<close>

definition dec_gt :: "decimal \<Rightarrow> rat \<Rightarrow> exc + bool" where
  "dec_gt d x =
     (case d of
        DFinite q \<Rightarrow> Inr (x < q)
      | DInfinity neg \<Rightarrow> Inr (\<not> neg)
      | DNaN _ \<Rightarrow> Inl InvalidOperation)"

definition dec_lt :: "decimal \<Rightarrow> rat \<Rightarrow> exc + bool" where
  "dec_lt d x =
     (case d of
        DFinite q \<Rightarrow> Inr (q < x)
      | DInfinity neg \<Rightarrow> Inr neg
      | DNaN _ \<Rightarrow> Inl InvalidOperation)"

section \<open>Python floats\<close>

text \<open>
  A Python float is an IEEE 754 double. Its finite values are kept as the rationals they
  denote. \<open>rd\<close> rounds a rational to the nearest double, ties to even, with an unbounded
  exponent upwards and the subnormal spacing \<open>2 powi - 1074\<close> at the bottom: \<open>ilog2 x\<close> is
  the exponent of the binade of \<open>x\<close> and \<open>ulp x\<close> the spacing of the doubles there.
\<close>

definition ilog2 :: "rat \<Rightarrow> int" where
  "ilog2 x =
     (let (p, q) = quotient_of x; k = bitlen p - bitlen q
      in if 2 powi k \<le> x then k else k - 1)"

definition ulp :: "rat \<Rightarrow> rat" where
  "ulp x = 2 powi (max (ilog2 \<bar>x\<bar>) (- 1022) - 52)"

definition rd :: "rat \<Rightarrow> rat" where
  "rd x = (if x = 0 then 0 else of_int (round_half_even (x / ulp x)) * ulp x)"

text \<open>\<open>Inf True\<close> is minus infinity.\<close>

datatype pyfloat = Fin rat | Inf bool | NaN

text \<open>
  The result of an arithmetic operation: a value that rounds to \<open>2 ^ 1024\<close> or beyond
  becomes an infinity. \<open>float(n)\<close> of an int, also where an int meets a float in an
  operation, raises \<open>OverflowError\<close> there instead.
\<close>

definition fround :: "rat \<Rightarrow> pyfloat" where
  "fround x = (let y = rd x in if 2 ^ 1024 \<le> \<bar>y\<bar> then Inf (y < 0) else Fin y)"

definition float_of_int :: "int \<Rightarrow> exc + pyfloat" where
  "float_of_int n =
     (let y = rd (of_int n) in if 2 ^ 1024 \<le> \<bar>y\<bar> then Inl OverflowError else Inr (Fin y))"

fun fmul :: "pyfloat \<Rightarrow> pyfloat \<Rightarrow> pyfloat" where
  "fmul (Fin x) (Fin y) = fround (x * y)"
| "fmul (Fin x) (Inf t) = (if x = 0 then NaN else Inf (t \<noteq> (x < 0)))"
| "fmul (Inf s) (Fin y) = (if y = 0 then NaN else Inf (s \<noteq> (y < 0)))"
| "fmul (Inf s) (Inf t) = Inf (s \<noteq> t)"
| "fmul NaN b = NaN"
| "fmul a NaN = NaN"

text \<open>\<open>a / b\<close>: a zero divisor raises before anything else is looked at.\<close>

fun fdiv :: "pyfloat \<Rightarrow> pyfloat \<Rightarrow> exc + pyfloat" where
  "fdiv (Fin x) (Fin y) = (if y = 0 then Inl ZeroDivisionError else Inr (fround (x / y)))"
| "fdiv (Inf s) (Fin y) =
     (if y = 0 then Inl ZeroDivisionError else Inr (Inf (s \<noteq> (y < 0))))"
| "fdiv NaN (Fin y) = (if y = 0 then Inl ZeroDivisionError else Inr NaN)"
| "fdiv (Fin x) (Inf t) = Inr (Fin 0)"
| "fdiv (Inf s) (Inf t) = Inr NaN"
| "fdiv NaN (Inf t) = Inr NaN"
| "fdiv a NaN = Inr NaN"

text \<open>Sequencing of calls that may raise.\<close>

definition and_then :: "exc + 'a \<Rightarrow> ('a \<Rightarrow> exc + 'b) \<Rightarrow> exc + 'b" where
  "and_then r f = (case r of Inl e \<Rightarrow> Inl e | Inr v \<Rightarrow> f v)"

definition fmul_int :: "pyfloat \<Rightarrow> int \<Rightarrow> exc + pyfloat" where
  "fmul_int a n = and_then (float_of_int n) (\<lambda>b. Inr (fmul a b))"

definition fdiv_int :: "pyfloat \<Rightarrow> int \<Rightarrow> exc + pyfloat" where
  "fdiv_int a n = and_then (float_of_int n) (\<lambda>b. fdiv a b)"

section \<open>validate_message_vals\<close>

text \<open>
  The keyword arguments of \<open>validate_message_vals\<close>: the \<open>update_dict\<close> that
  \<open>verify_message\<close> builds. \<open>SETADDR\<close> is a dict from currency to address, kept as an
  association list with one entry per key.
\<close>

record update_dict =
  SETADDR :: "(string \<times> string) list"
  DELADDR :: "string list"
  MAKEANON :: pyval
  SETDONATE :: pyval

text \<open>
  A function \<open>check_valid_currency\<close>: \<open>None\<close> is its result \<open>False\<close>, \<open>Some c\<close> the currency
  it found for the address. \<open>validate_message_vals\<close> calls the global name, and utils.py
  neither defines nor imports it: what the name is bound to is an optional function, and
  in utils.py as it stands it is bound to nothing (\<open>None\<close> below), so that the call raises
  \<open>NameError\<close>.
\<close>

type_synonym 'c currency_check = "string \<Rightarrow> 'c option"

text \<open>Lines 407 to 410: the loop over the \<open>SETADDR\<close> entries.\<close>

fun check_set_addrs ::
  "'c currency_check option \<Rightarrow> (string \<times> string) list \<Rightarrow> exc + unit" where
  "check_set_addrs global [] = Inr ()"
| "check_set_addrs global ((key, addr) # rest) =
     (case global of
        None \<Rightarrow> Inl NameError
      | Some chk \<Rightarrow>
          (let cur = chk addr
           in if length addr \<noteq> 34 \<or> cur = None
              then Inl (CommandException ''Invalid currency address passed!'')
              else check_set_addrs global rest))"

text \<open>
  Lines 412 to 418: the donation percentage. Only \<open>TypeError\<close> is caught by the
  \<open>except\<close> clause; the \<open>else\<close> branch compares the value already divided by 100.
\<close>

definition convert_donate :: "pyval \<Rightarrow> exc + decimal" where
  "convert_donate v =
     (case Decimal v of
        Inl e \<Rightarrow> Inl e
      | Inr d \<Rightarrow>
          (case quantize_cents d of
             Inl e \<Rightarrow> Inl e
           | Inr q \<Rightarrow> Inr (div_100 q)))"

definition check_donate :: "pyval \<Rightarrow> exc + decimal" where
  "check_donate v =
     (case convert_donate v of
        Inl e \<Rightarrow>
          (if e = TypeError
           then Inl (CommandException
                  ''Donate percentage unable to be converted to python Decimal!'')
           else Inl e)
      | Inr donate_perc \<Rightarrow>
          (case dec_gt donate_perc 100 of
             Inl e \<Rightarrow> Inl e
           | Inr True \<Rightarrow> Inl (CommandException ''Donate percentage was out of bounds!'')
           | Inr False \<Rightarrow>
               (case dec_lt donate_perc 0 of
                  Inl e \<Rightarrow> Inl e
                | Inr True \<Rightarrow> Inl (CommandException ''Donate percentage was out of bounds!'')
                | Inr False \<Rightarrow> Inr donate_perc)))"

type_synonym validated = "(string \<times> string) list \<times> string list \<times> decimal \<times> pyval"

definition validate_message_vals ::
  "'c currency_check option \<Rightarrow> update_dict \<Rightarrow> exc + validated" where
  "validate_message_vals chk kwargs =
     (let set_addrs = SETADDR kwargs;
          del_addrs = DELADDR kwargs;
          donate_perc = SETDONATE kwargs;
          anon = MAKEANON kwargs
      in case check_set_addrs chk set_addrs of
           Inl e \<Rightarrow> Inl e
         | Inr _ \<Rightarrow>
             (case check_donate donate_perc of
                Inl e \<Rightarrow> Inl e
              | Inr perc \<Rightarrow> Inr (set_addrs, del_addrs, perc, anon)))"

section \<open>verify_message\<close>

subsection \<open>Strings and indexing\<close>

text \<open>
  \<open>s.split(sep)\<close> with a one-character separator: every occurrence of the separator
  cuts, so the result is never empty and may hold empty strings.
\<close>

fun split_acc :: "char \<Rightarrow> string \<Rightarrow> string \<Rightarrow> string list" where
  "split_acc sep cur [] = [rev cur]"
| "split_acc sep cur (c # cs) =
     (if c = sep then rev cur # split_acc sep [] cs else split_acc sep (c # cur) cs)"

definition split_str :: "char \<Rightarrow> string \<Rightarrow> string list" where
  "split_str sep s = split_acc sep [] s"

text \<open>\<open>parts[i]\<close> for \<open>i \<ge> 0\<close>: \<open>None\<close> is the \<open>IndexError\<close>.\<close>

definition index :: "'a list \<Rightarrow> nat \<Rightarrow> 'a option" where
  "index xs i = (if i < length xs then Some (xs ! i) else None)"

text \<open>\<open>d[k] = v\<close> on a dict kept as an association list: one entry per key.\<close>

fun dict_set :: "'k \<Rightarrow> 'v \<Rightarrow> ('k \<times> 'v) list \<Rightarrow> ('k \<times> 'v) list" where
  "dict_set k v [] = [(k, v)]"
| "dict_set k v ((k', v') # r) =
     (if k' = k then (k, v) # r else (k', v') # dict_set k v r)"

subsection \<open>The collaborators that are not in utils.py\<close>

text \<open>
  The result of \<open>curr.coinserv.verifymessage\<close>: a truth value, a \<open>CoinRPCException\<close> with
  its text, or any other exception.
\<close>

datatype rpc_result = RpcReturn bool | RpcCoinRPCException string | RpcOtherException

record currency =
  coinserv_verifymessage :: "string \<Rightarrow> string \<Rightarrow> string \<Rightarrow> rpc_result"

text \<open>
  The SQLAlchemy session: \<open>committed\<close> is what the database holds, \<open>pending\<close> what the
  session has changed and not yet committed. \<open>UserSettings.update\<close> works on the session
  and either returns or raises \<open>SQLAlchemyError\<close>, both with the session as it left it.
\<close>

record 'db session =
  committed :: 'db
  pending :: 'db

definition rollback :: "'db session \<Rightarrow> 'db session" where
  "rollback s = s\<lparr>pending := committed s\<rparr>"

definition commit :: "'db session \<Rightarrow> 'db session" where
  "commit s = s\<lparr>committed := pending s\<rparr>"

datatype 'db update_result = Updated 'db | SQLAlchemyError 'db

text \<open>
  The library and model functions that \<open>verify_message\<close> reaches, as parameters:
  \<open>strptime\<close> is \<open>datetime.strptime(s, '%Y-%m-%d %H:%M:%S.%f %Z')\<close> with \<open>None\<close> for its
  \<open>ValueError\<close>; \<open>unicode_escape\<close> is \<open>message.encode('utf-8').decode('unicode-escape')\<close>
  with \<open>None\<close> for its failure; \<open>UserSettings_update\<close> is the model's class method.
\<close>

record ('c, 'db) env =
  strptime :: "string \<Rightarrow> datetime option"
  check_valid_currency :: "'c currency_check option"
  unicode_escape :: "string \<Rightarrow> string option"
  UserSettings_update :: "string \<Rightarrow> validated \<Rightarrow> 'db \<Rightarrow> 'db update_result"

text \<open>\<open>current_app.config\<close>: an absent key is \<open>None\<close> and takes the default of \<open>.get\<close>.\<close>

record config =
  message_expiry :: "int option"
  site_title :: string
  hashes_per_share :: "int option"

subsection \<open>Parsing the message (lines 425 to 453)\<close>

record msg_state =
  updates :: update_dict
  stamp :: "datetime option"
  site :: "string option"

definition initial_state :: msg_state where
  "initial_state =
     \<lparr>updates = \<lparr>SETADDR = [], DELADDR = [], MAKEANON = PyBool False, SETDONATE = PyInt 0\<rparr>,
      stamp = None, site = None\<rparr>"

abbreviation msg_invalid_command :: string where
  "msg_invalid_command \<equiv> ''Invalid command given! Generate a new message & try again.''"

abbreviation msg_invalid_information :: string where
  "msg_invalid_information \<equiv>
     ''Invalid information provided in the message field. This could be the fault of the bug with IE11, or the generated message has an error''"

abbreviation msg_no_stamp :: string where
  "msg_no_stamp \<equiv> ''Time stamp not found in message! Generate a new message & try again.''"

abbreviation msg_too_old :: string where
  "msg_too_old \<equiv>
     ''Signature/Message is too old to be accepted! Generate a new message & try again.''"

abbreviation msg_invalid_website :: string where
  "msg_invalid_website \<equiv> ''Invalid website! Generate a new message & try again.''"

abbreviation msg_unreachable :: string where
  "msg_unreachable \<equiv> ''Unable to communicate with coinserver!''"

abbreviation msg_save_failed :: string where
  "msg_save_failed \<equiv> ''Error saving new settings to the database!''"

abbreviation msg_invalid_signature :: string where
  "msg_invalid_signature \<equiv> ''Invalid signature! Coinserver returned False''"

definition parse_line :: "(string \<Rightarrow> datetime option) \<Rightarrow> string \<Rightarrow> msg_state \<Rightarrow> exc + msg_state"
  where
  "parse_line parse_time line st =
     (let parts = split_str CHR '' '' line
      in case index parts 0 of
           None \<Rightarrow> Inl IndexError
         | Some p0 \<Rightarrow>
             if p0 \<in> {''SETADDR'', ''DELADDR'', ''MAKEANON'', ''SETDONATE''} then
               (if p0 = ''SETADDR'' then
                  (case (index parts 2, index parts 1) of
                     (Some a, Some k) \<Rightarrow>
                       Inr (st\<lparr>updates := (updates st)
                               \<lparr>SETADDR := dict_set k a (SETADDR (updates st))\<rparr>\<rparr>)
                   | _ \<Rightarrow> Inl IndexError)
                else if p0 = ''DELADDR'' then
                  (case index parts 1 of
                     Some k \<Rightarrow>
                       Inr (st\<lparr>updates := (updates st)
                               \<lparr>DELADDR := DELADDR (updates st) @ [k]\<rparr>\<rparr>)
                   | None \<Rightarrow> Inl IndexError)
                else
                  (case index parts 1 of
                     Some v \<Rightarrow>
                       Inr (st\<lparr>updates :=
                               (if p0 = ''MAKEANON''
                                then (updates st)\<lparr>MAKEANON := PyStr v\<rparr>
                                else (updates st)\<lparr>SETDONATE := PyStr v\<rparr>)\<rparr>)
                   | None \<Rightarrow> Inl IndexError))
             else if p0 = ''Only'' then
               (case index parts 3 of
                  Some t \<Rightarrow> Inr (st\<lparr>site := Some t\<rparr>)
                | None \<Rightarrow> Inl IndexError)
             else if p0 = ''Generated'' then
               (case (index parts 2, index parts 3, index parts 4) of
                  (Some a, Some b, Some c) \<Rightarrow>
                    (case parse_time (a @ '' '' @ b @ '' '' @ c) of
                       Some t \<Rightarrow> Inr (st\<lparr>stamp := Some t\<rparr>)
                     | None \<Rightarrow> Inl ValueError)
                | _ \<Rightarrow> Inl IndexError)
             else Inl (CommandException msg_invalid_command))"

fun parse_lines :: "(string \<Rightarrow> datetime option) \<Rightarrow> string list \<Rightarrow> msg_state \<Rightarrow> exc + msg_state"
  where
  "parse_lines parse_time [] st = Inr st"
| "parse_lines parse_time (line # rest) st =
     (case parse_line parse_time line st of
        Inl e \<Rightarrow> Inl e
      | Inr st' \<Rightarrow> parse_lines parse_time rest st')"

definition parse_message :: "(string \<Rightarrow> datetime option) \<Rightarrow> string \<Rightarrow> exc + msg_state" where
  "parse_message parse_time message =
     (case parse_lines parse_time (split_str (CHR 0x09) message) initial_state of
        Inl e \<Rightarrow>
          (if e = IndexError \<or> e = ValueError
           then Inl (CommandException msg_invalid_information)
           else Inl e)
      | Inr st \<Rightarrow> Inr st)"

subsection \<open>Freshness, site, oracle, validation and commit (lines 454 to 490)\<close>

definition too_old :: "config \<Rightarrow> datetime \<Rightarrow> datetime \<Rightarrow> bool" where
  "too_old cfg now st =
     ((case message_expiry cfg of None \<Rightarrow> 90660 | Some n \<Rightarrow> n) < \<bar>td_seconds (now - st)\<bar>)"

definition wrong_site :: "config \<Rightarrow> string option \<Rightarrow> bool" where
  "wrong_site cfg s = (case s of None \<Rightarrow> True | Some t \<Rightarrow> t = [] \<or> t \<noteq> site_title cfg)"

definition call_verifymessage ::
  "('c, 'db) env \<Rightarrow> currency \<Rightarrow> string \<Rightarrow> string \<Rightarrow> string \<Rightarrow> exc + bool" where
  "call_verifymessage e cur address signature message =
     (case unicode_escape e message of
        None \<Rightarrow> Inl (CommandException msg_unreachable)
      | Some decoded \<Rightarrow>
          (case coinserv_verifymessage cur address signature decoded of
             RpcReturn res \<Rightarrow> Inr res
           | RpcCoinRPCException reason \<Rightarrow>
               Inl (CommandException (''Rejected by RPC server for reason '' @ reason @ ''!''))
           | RpcOtherException \<Rightarrow> Inl (CommandException msg_unreachable)))"

definition verify_message ::
  "('c, 'db) env \<Rightarrow> config \<Rightarrow> datetime \<Rightarrow> 'db session \<Rightarrow>
   string \<Rightarrow> currency \<Rightarrow> string \<Rightarrow> string \<Rightarrow> (exc + unit) \<times> 'db session" where
  "verify_message e cfg now s address cur message signature =
     (case parse_message (strptime e) message of
        Inl err \<Rightarrow> (Inl err, s)
      | Inr st \<Rightarrow>
          (case stamp st of
             None \<Rightarrow> (Inl (CommandException msg_no_stamp), s)
           | Some t \<Rightarrow>
               if too_old cfg now t then (Inl (CommandException msg_too_old), s)
               else if wrong_site cfg (site st)
               then (Inl (CommandException msg_invalid_website), s)
               else
                 (case call_verifymessage e cur address signature message of
                    Inl err \<Rightarrow> (Inl err, s)
                  | Inr res \<Rightarrow>
                      if res then
                        (case validate_message_vals (check_valid_currency e) (updates st) of
                           Inl err \<Rightarrow> (Inl err, s)
                         | Inr args \<Rightarrow>
                             (case UserSettings_update e address args (pending s) of
                                SQLAlchemyError p \<Rightarrow>
                                  (Inl (CommandException msg_save_failed),
                                   rollback (s\<lparr>pending := p\<rparr>))
                              | Updated p \<Rightarrow> (Inr (), commit (s\<lparr>pending := p\<rparr>))))
                      else (Inl (CommandException msg_invalid_signature), s))))"

section \<open>Share aggregation\<close>

subsection \<open>The record store\<close>

text \<open>
  A row of one of the time-slice tables. The model classes are not in utils.py; the
  attributes used there are the fields here (\<open>val\<close> is the column \<open>value\<close>, \<open>typ_tag\<close> the
  column \<open>typ\<close>). Share values are integers.
\<close>

record slice =
  user :: string
  worker :: string
  device :: string
  typ_tag :: string
  time :: datetime
  val :: int

datatype table =
    OneMinuteShare | FiveMinuteShare | OneHourShare
  | OneMinuteReject | FiveMinuteReject | OneHourReject

text \<open>
  What the aggregation reads: the rows of each table in the order the query returns
  them, the class attributes \<open>floor_time\<close>, \<open>window\<close> and \<open>upper\<close> of each model (declared
  in models.py, so parameters here), the liveness feed \<open>cache.get('addr_online_' + a)\<close>
  and the lookup \<open>config['monitor_addrs'][host]['stratum']\<close> with \<open>None\<close> for its
  \<open>KeyError\<close>.
\<close>

record store =
  rows :: "table \<Rightarrow> slice list"
  typ_floor_time :: "table \<Rightarrow> datetime \<Rightarrow> datetime"
  typ_window :: "table \<Rightarrow> timedelta"
  typ_upper :: "table \<Rightarrow> table"
  addr_online :: "string \<Rightarrow> (string \<times> string) list option"
  monitor_stratum :: "string \<Rightarrow> string option"

definition days :: "int \<Rightarrow> timedelta" where
  "days n = n * 86400000000"

text \<open>\<open>calendar.timegm(dt.utctimetuple())\<close>: whole seconds since the epoch.\<close>

definition timegm :: "datetime \<Rightarrow> int" where
  "timegm dt = dt div 1000000"

definition get_typ ::
  "store \<Rightarrow> datetime \<Rightarrow> table \<Rightarrow> string option \<Rightarrow> bool \<Rightarrow> string option \<Rightarrow> string option
   \<Rightarrow> slice list" where
  "get_typ db now ty address windowed wrk q_typ =
     (let base = rows db ty;
          base = (case address of None \<Rightarrow> base | Some a \<Rightarrow> filter (\<lambda>r. user r = a) base);
          base = (case wrk of None \<Rightarrow> base | Some w \<Rightarrow> filter (\<lambda>r. worker r = w) base);
          base = (case q_typ of None \<Rightarrow> base | Some q \<Rightarrow> filter (\<lambda>r. typ_tag r = q) base)
      in if \<not> windowed then base
         else (let grab = typ_floor_time db ty now - typ_window db ty
               in filter (\<lambda>r. grab \<le> time r) base))"

subsection \<open>compress_typ\<close>

text \<open>The \<open>workers\<close> argument: a dict of dicts, worker or device to bucket stamp to total.\<close>

type_synonym buckets = "string \<rightharpoonup> (int \<rightharpoonup> int)"

text \<open>
  \<open>workers.setdefault(k, {}); workers[k].setdefault(stamp, 0); workers[k][stamp] += v\<close>
\<close>

definition add_to_bucket :: "string \<Rightarrow> int \<Rightarrow> int \<Rightarrow> buckets \<Rightarrow> buckets" where
  "add_to_bucket k ts v workers =
     (let inner = (case workers k of None \<Rightarrow> Map.empty | Some m \<Rightarrow> m);
          cur = (case inner ts of None \<Rightarrow> 0 | Some c \<Rightarrow> c)
      in workers(k \<mapsto> inner(ts \<mapsto> cur + v)))"

definition slice_key :: "string option \<Rightarrow> slice \<Rightarrow> string" where
  "slice_key wrk slc = (if wrk \<noteq> None then device slc else worker slc)"

definition slice_stamp :: "store \<Rightarrow> table \<Rightarrow> string option \<Rightarrow> slice \<Rightarrow> int" where
  "slice_stamp db ty wrk slc =
     (if wrk \<noteq> None then timegm (typ_floor_time db ty (time slc))
      else timegm (typ_floor_time db (typ_upper db ty) (time slc)))"

definition compress_slice :: "store \<Rightarrow> table \<Rightarrow> string option \<Rightarrow> slice \<Rightarrow> buckets \<Rightarrow> buckets"
  where
  "compress_slice db ty wrk slc workers =
     add_to_bucket (slice_key wrk slc) (slice_stamp db ty wrk slc) (val slc) workers"

definition compress_typ ::
  "store \<Rightarrow> datetime \<Rightarrow> table \<Rightarrow> buckets \<Rightarrow> string option \<Rightarrow> string option \<Rightarrow> buckets" where
  "compress_typ db now ty workers address wrk =
     fold (compress_slice db ty wrk) (get_typ db now ty address False wrk None) workers"

text \<open>The total a \<open>workers\<close> mapping holds for a key and a stamp, 0 where it holds none.\<close>

definition bucket_total :: "buckets \<Rightarrow> string \<Rightarrow> int \<Rightarrow> int" where
  "bucket_total workers k ts =
     (case workers k of None \<Rightarrow> 0 | Some m \<Rightarrow> (case m ts of None \<Rightarrow> 0 | Some c \<Rightarrow> c))"

subsection \<open>Pool-wide figures\<close>

text \<open>
  The \<open>cache.memoize\<close> and \<open>cache.cached\<close> decorators are left out: each function is the
  computation a cache miss runs. \<open>get_pool_hashrate\<close> does not read its argument \<open>algo\<close>.
  The value of \<open>hashes_per_share\<close> in the configuration is an integer.
\<close>

definition shares_to_hashes :: "config \<Rightarrow> int \<Rightarrow> exc + pyfloat" where
  "shares_to_hashes cfg shares =
     and_then (float_of_int (case hashes_per_share cfg of None \<Rightarrow> 65536 | Some h \<Rightarrow> h))
       (\<lambda>h. fmul_int h shares)"

definition get_pool_hashrate :: "store \<Rightarrow> datetime \<Rightarrow> exc + pyfloat" where
  "get_pool_hashrate db now =
     (let dt = now;
          twelve_ago = dt - minutes 12;
          two_ago = dt - minutes 2;
          ten_min = filter (\<lambda>r. user r = ''pool'' \<and> twelve_ago \<le> time r \<and> time r \<le> two_ago)
                      (rows db OneMinuteShare);
          ten_min = sum_list (map val ten_min)
      in and_then (float_of_int ten_min) (\<lambda>f. fdiv_int f 600000))"

definition get_pool_acc_rej :: "store \<Rightarrow> datetime \<Rightarrow> timedelta option \<Rightarrow> int \<times> int" where
  "get_pool_acc_rej db now td =
     (let timedelta = (case td of None \<Rightarrow> days 30 | Some t \<Rightarrow> t);
          (rej_typ, acc_typ) =
            (if timedelta \<le> days 1 then (FiveMinuteReject, FiveMinuteShare)
             else (OneHourReject, OneHourShare));
          one_month_ago = now - timedelta;
          rejects = filter (\<lambda>r. one_month_ago \<le> time r \<and> user r = ''pool_stale'')
                      (rows db rej_typ);
          accepts = filter (\<lambda>r. one_month_ago \<le> time r \<and> user r = ''pool'')
                      (rows db acc_typ);
          reject_total = sum_list (map val rejects);
          accept_total = sum_list (map val accepts)
      in (reject_total, accept_total))"

text \<open>The \<open>100\<close> of line 348 is an int; it is the float of the same value here.\<close>

definition get_pool_eff :: "store \<Rightarrow> datetime \<Rightarrow> timedelta option \<Rightarrow> exc + pyfloat" where
  "get_pool_eff db now td =
     (let (rej, acc) = get_pool_acc_rej db now td
      in if rej = 0 \<and> acc = 0 then Inr (Fin 100)
         else and_then (float_of_int acc)
                (\<lambda>a. and_then (fdiv_int a (acc + rej)) (\<lambda>q. fmul_int q 100)))"

subsection \<open>collect_user_stats: the workers it reports\<close>

record worker_acc =
  accepted :: int
  rejected :: int
  last_10_shares :: int
  online :: bool
  server :: "string option"

text \<open>The blank template; \<open>server = None\<close> is its empty dict.\<close>

definition def_worker :: worker_acc where
  "def_worker = \<lparr>accepted = 0, rejected = 0, last_10_shares = 0, online = False, server = None\<rparr>"

record worker_stat = worker_acc +
  last_10_hashrate :: pyfloat
  efficiency :: "pyfloat option"
  name :: string

text \<open>\<open>workers.setdefault(k, d)\<close> and an in-place change of \<open>workers[k]\<close>.\<close>

definition setdefault :: "'k \<Rightarrow> 'v \<Rightarrow> ('k \<times> 'v) list \<Rightarrow> ('k \<times> 'v) list" where
  "setdefault k d al = (if k \<in> fst ` set al then al else al @ [(k, d)])"

definition change :: "'k \<Rightarrow> ('v \<Rightarrow> 'v) \<Rightarrow> ('k \<times> 'v) list \<Rightarrow> ('k \<times> 'v) list" where
  "change k f al = map (\<lambda>(k', v). if k' = k then (k', f v) else (k', v)) al"

definition add_share ::
  "datetime \<Rightarrow> datetime \<Rightarrow> slice \<Rightarrow> (string \<times> worker_acc) list \<Rightarrow> (string \<times> worker_acc) list"
  where
  "add_share twelve_ago two_ago m workers =
     (let workers = setdefault (worker m) def_worker workers;
          workers = change (worker m) (\<lambda>w. w\<lparr>accepted := accepted w + val m\<rparr>) workers
      in if twelve_ago \<le> time m \<and> time m < two_ago
         then change (worker m) (\<lambda>w. w\<lparr>last_10_shares := last_10_shares w + val m\<rparr>) workers
         else workers)"

definition add_reject :: "slice \<Rightarrow> (string \<times> worker_acc) list \<Rightarrow> (string \<times> worker_acc) list"
  where
  "add_reject m workers =
     (let workers = setdefault (worker m) def_worker workers
      in change (worker m) (\<lambda>w. w\<lparr>rejected := rejected w + val m\<rparr>) workers)"

definition add_online ::
  "store \<Rightarrow> string \<times> string \<Rightarrow> (string \<times> worker_acc) list \<Rightarrow> (string \<times> worker_acc) list"
  where
  "add_online db nh workers =
     (let (nm, host) = nh;
          workers = setdefault nm def_worker workers;
          workers = change nm (\<lambda>w. w\<lparr>online := True\<rparr>) workers
      in change nm
           (\<lambda>w. w\<lparr>server := (case monitor_stratum db host of
                                 Some s \<Rightarrow> Some s | None \<Rightarrow> Some [])\<rparr>) workers)"

text \<open>Lines 305 to 310 and 316 for one worker.\<close>

definition worker_hashrate :: "config \<Rightarrow> worker_acc \<Rightarrow> exc + pyfloat" where
  "worker_hashrate cfg w =
     and_then (shares_to_hashes cfg (last_10_shares w))
       (\<lambda>h. and_then (fdiv_int h 1000000) (\<lambda>m. fdiv_int m 600))"

definition worker_efficiency :: "worker_acc \<Rightarrow> exc + pyfloat option" where
  "worker_efficiency w =
     (if accepted w \<noteq> 0 \<or> rejected w \<noteq> 0 then
        and_then (float_of_int (accepted w))
          (\<lambda>a. and_then (fdiv_int a (accepted w + rejected w))
                 (\<lambda>q. Inr (Some (fmul (Fin 100) q))))
      else Inr None)"

definition finish_worker :: "config \<Rightarrow> string \<times> worker_acc \<Rightarrow> exc + worker_stat" where
  "finish_worker cfg nw =
     (let (nm, w) = nw
      in and_then (worker_hashrate cfg w)
           (\<lambda>rate. and_then (worker_efficiency w)
              (\<lambda>eff. Inr (worker_acc.extend w
                            \<lparr>last_10_hashrate = rate, efficiency = eff, name = nm\<rparr>))))"

fun finish_workers :: "config \<Rightarrow> (string \<times> worker_acc) list \<Rightarrow> exc + worker_stat list" where
  "finish_workers cfg [] = Inr []"
| "finish_workers cfg (nw # rest) =
     (case finish_worker cfg nw of
        Inl e \<Rightarrow> Inl e
      | Inr w \<Rightarrow>
          (case finish_workers cfg rest of
             Inl e \<Rightarrow> Inl e
           | Inr ws \<Rightarrow> Inr (w # ws)))"

definition accumulate_workers :: "store \<Rightarrow> datetime \<Rightarrow> string \<Rightarrow> (string \<times> worker_acc) list"
  where
  "accumulate_workers db utcnow address =
     (let workers = [];
          now = utcnow - utcnow mod 60000000;
          twelve_ago = now - minutes 12;
          two_ago = now - minutes 2;
          workers = fold (add_share twelve_ago two_ago)
                      (get_typ db utcnow FiveMinuteShare (Some address) True None None
                       @ get_typ db utcnow OneMinuteShare (Some address) True None None)
                      workers;
          workers = fold add_reject
                      (get_typ db utcnow FiveMinuteReject (Some address) True None None
                       @ get_typ db utcnow OneMinuteReject (Some address) True None None)
                      workers
      in fold (add_online db)
           (case addr_online db address of None \<Rightarrow> [] | Some l \<Rightarrow> l) workers)"

definition collect_user_stats_workers ::
  "store \<Rightarrow> config \<Rightarrow> datetime \<Rightarrow> string \<Rightarrow> exc + worker_stat list" where
  "collect_user_stats_workers db cfg utcnow address =
     (case finish_workers cfg (accumulate_workers db utcnow address) of
        Inl e \<Rightarrow> Inl e
      | Inr new_workers \<Rightarrow> Inr (sort_key name new_workers))"

text \<open>\<open>last_10_shares(user)\<close>, the account-level window of lines 252 to 259.\<close>

definition user_last_10_shares :: "store \<Rightarrow> datetime \<Rightarrow> string \<Rightarrow> int" where
  "user_last_10_shares db now u =
     (let twelve_ago = now - minutes 12;
          two_ago = now - minutes 2;
          mins = filter (\<lambda>r. user r = u \<and> twelve_ago < time r \<and> time r < two_ago)
                   (rows db OneMinuteShare)
      in sum_list (map val mins))"

section \<open>Concrete inputs and auxiliary predicates\<close>

text \<open>
  The per-user formula of lines 306 and 327 applied to the pool: \<open>shares_to_hashes\<close> of the
  pool's share values with a timestamp in the half-open window from twelve to two minutes
  ago, divided by \<open>1000000\<close> and by 600. It is what the specification says
  \<open>get_pool_hashrate\<close> computes and is compared with the function below.
\<close>

definition per_user_formula_pool_hashrate :: "config \<Rightarrow> store \<Rightarrow> datetime \<Rightarrow> exc + pyfloat" where
  "per_user_formula_pool_hashrate cfg db now =
     and_then
       (shares_to_hashes cfg
          (sum_list (map val (filter
             (\<lambda>r. user r = ''pool'' \<and> now - minutes 12 \<le> time r \<and> time r < now - minutes 2)
             (rows db OneMinuteShare)))))
       (\<lambda>h. and_then (fdiv_int h 1000000) (\<lambda>m. fdiv_int m 600))"

text \<open>
  Totals that convert to a float without rounding: nonnegative and below \<open>2 ^ 53\<close>.
\<close>

definition small_total :: "int \<Rightarrow> bool" where
  "small_total n = (0 \<le> n \<and> n < 2 ^ 53)"

definition small_workers :: "(string \<times> worker_acc) list \<Rightarrow> bool" where
  "small_workers al =
     list_all (\<lambda>kw. 0 \<le> accepted (snd kw) \<and> 0 \<le> rejected (snd kw)
                  \<and> accepted (snd kw) + rejected (snd kw) < 2 ^ 53
                  \<and> small_total (last_10_shares (snd kw))) al"

definition small_config :: "config \<Rightarrow> bool" where
  "small_config cfg = (case hashes_per_share cfg of None \<Rightarrow> True | Some h \<Rightarrow> small_total h)"

text \<open>
  A checker that knows one Bitcoin address; the message of the specification's end-to-end
  example and a message that sets a donation of 5 percent, both with the timestamp of
  their \<open>Generated\<close> line (2024-01-01 00:00:00 UTC); a \<open>strptime\<close> that reads that one
  line, an escape decoding that changes nothing, a \<open>UserSettings.update\<close> that records
  the call, and an oracle that gives a fixed answer. \<open>demo_env\<close> binds
  \<open>check_valid_currency\<close> to the checker; \<open>shipped_env\<close> leaves the name unbound, as
  utils.py does.
\<close>

definition btc_only :: "string currency_check" where
  "btc_only a = (if a = ''1A1zP1eP5QGefi2DMPTfTL5SLmv7DivfNa'' then Some ''BTC'' else None)"

definition demo_stamp :: datetime where
  "demo_stamp = 1704067200000000"

definition demo_now :: datetime where
  "demo_now = demo_stamp + hours 26"

type_synonym demo_db = "(string \<times> validated) list"

definition demo_env :: "(string, demo_db) env" where
  "demo_env =
     \<lparr>strptime = (\<lambda>s. if s = ''2024-01-01 00:00:00.000 UTC'' then Some demo_stamp else None),
      check_valid_currency = Some btc_only,
      unicode_escape = Some,
      UserSettings_update = (\<lambda>address args db. Updated ((address, args) # db))\<rparr>"

definition shipped_env :: "(string, demo_db) env" where
  "shipped_env = demo_env\<lparr>check_valid_currency := None\<rparr>"

definition demo_cfg :: config where
  "demo_cfg = \<lparr>message_expiry = None, site_title = ''PoolSite'', hashes_per_share = None\<rparr>"

definition demo_curr :: "bool \<Rightarrow> currency" where
  "demo_curr answer = \<lparr>coinserv_verifymessage = (\<lambda>address signature message. RpcReturn answer)\<rparr>"

definition demo_address :: string where
  "demo_address = ''1A1zP1eP5QGefi2DMPTfTL5SLmv7DivfNa''"

definition demo_message :: string where
  "demo_message =
     ''SETADDR BTC 1A1zP1eP5QGefi2DMPTfTL5SLmv7DivfNa'' @ [CHR 0x09]
     @ ''Generated at 2024-01-01 00:00:00.000 UTC'' @ [CHR 0x09]
     @ ''Only valid for PoolSite''"

definition donate_message :: string where
  "donate_message =
     ''SETDONATE 5'' @ [CHR 0x09]
     @ ''Generated at 2024-01-01 00:00:00.000 UTC'' @ [CHR 0x09]
     @ ''Only valid for PoolSite''"

definition demo_kwargs :: "string \<Rightarrow> pyval \<Rightarrow> update_dict" where
  "demo_kwargs addr donate =
     \<lparr>SETADDR = [(''BTC'', addr)], DELADDR = [], MAKEANON = PyBool False, SETDONATE = donate\<rparr>"

definition donate_only :: "pyval \<Rightarrow> update_dict" where
  "donate_only donate =
     \<lparr>SETADDR = [], DELADDR = [], MAKEANON = PyBool False, SETDONATE = donate\<rparr>"

definition demo_parsed :: msg_state where
  "demo_parsed =
     \<lparr>updates = demo_kwargs ''1A1zP1eP5QGefi2DMPTfTL5SLmv7DivfNa'' (PyInt 0),
      stamp = Some demo_stamp, site = Some ''PoolSite''\<rparr>"

definition donate_parsed :: msg_state where
  "donate_parsed =
     \<lparr>updates = donate_only (PyStr ''5''), stamp = Some demo_stamp, site = Some ''PoolSite''\<rparr>"

definition demo_args :: validated where
  "demo_args = ([(''BTC'', ''1A1zP1eP5QGefi2DMPTfTL5SLmv7DivfNa'')], [], DFinite 0, PyBool False)"

definition donate_args :: validated where
  "donate_args = ([], [], DFinite (1 / 20), PyBool False)"

definition demo_session :: "demo_db session" where
  "demo_session = \<lparr>committed = [], pending = []\<rparr>"

text \<open>
  A store with one miner \<open>addr1\<close> (worker \<open>rig1\<close>: 29 accepted, 71 rejected, five minutes
  ago; worker \<open>rig2\<close> only in the liveness feed) and the pool's own rows.
\<close>

definition demo_slice :: "string \<Rightarrow> string \<Rightarrow> datetime \<Rightarrow> int \<Rightarrow> slice" where
  "demo_slice u w t v = \<lparr>user = u, worker = w, device = w, typ_tag = [], time = t, val = v\<rparr>"

definition demo_rows :: "table \<Rightarrow> slice list" where
  "demo_rows ty =
     (case ty of
        OneMinuteShare \<Rightarrow>
          [demo_slice ''addr1'' ''rig1'' (demo_now - minutes 5) 29,
           demo_slice ''pool'' [] (demo_now - minutes 5) 600000]
      | OneMinuteReject \<Rightarrow> [demo_slice ''addr1'' ''rig1'' (demo_now - minutes 5) 71]
      | FiveMinuteShare \<Rightarrow> [demo_slice ''pool'' [] (demo_now - minutes 5) 29]
      | FiveMinuteReject \<Rightarrow> [demo_slice ''pool_stale'' [] (demo_now - minutes 5) 71]
      | _ \<Rightarrow> [])"

definition demo_store :: store where
  "demo_store =
     \<lparr>rows = demo_rows,
      typ_floor_time = (\<lambda>ty t. t - t mod 60000000),
      typ_window = (\<lambda>ty. hours 1),
      typ_upper = (\<lambda>ty. ty),
      addr_online = (\<lambda>a. if a = ''addr1'' then Some [(''rig2'', ''host1'')] else None),
      monitor_stratum = (\<lambda>h. None)\<rparr>"

definition demo_rig1 :: worker_stat where
  "demo_rig1 =
     \<lparr>accepted = 29, rejected = 71, last_10_shares = 29, online = False, server = None,
      last_10_hashrate = Fin (7303926826838385 / 2305843009213693952),
      efficiency = Some (Fin (8162774324609023 / 281474976710656)), name = ''rig1''\<rparr>"

definition demo_rig2 :: worker_stat where
  "demo_rig2 =
     \<lparr>accepted = 0, rejected = 0, last_10_shares = 0, online = True, server = Some [],
      last_10_hashrate = Fin 0, efficiency = None, name = ''rig2''\<rparr>"

section \<open>Properties of the float model\<close>

lemma rhe_floor: "\<lfloor>y\<rfloor> \<le> round_half_even y \<and> round_half_even y \<le> \<lfloor>y\<rfloor> + 1"
  by (simp add: round_half_even_def Let_def)

lemma rhe_of_int [simp]: "round_half_even (of_int n) = n"
  by (simp add: round_half_even_def Let_def)

lemma rhe_0 [simp]: "round_half_even 0 = 0"
  using rhe_of_int[of 0] by simp

lemma rhe_mono: "x \<le> y \<Longrightarrow> round_half_even x \<le> round_half_even y"
proof -
  assume xy: "x \<le> y"
  then have f: "\<lfloor>x\<rfloor> \<le> \<lfloor>y\<rfloor>" by (rule floor_mono)
  show ?thesis
  proof (cases "\<lfloor>x\<rfloor> < \<lfloor>y\<rfloor>")
    case True
    with rhe_floor[of x] rhe_floor[of y] show ?thesis by linarith
  next
    case False
    with f have eq: "\<lfloor>x\<rfloor> = \<lfloor>y\<rfloor>" by simp
    with xy show ?thesis
      by (auto simp: round_half_even_def Let_def)
  qed
qed

lemma rhe_error: "\<bar>of_int (round_half_even y) - y\<bar> \<le> 1 / 2"
proof -
  have "of_int \<lfloor>y\<rfloor> \<le> y" "y < of_int \<lfloor>y\<rfloor> + 1" by linarith+
  then show ?thesis
    by (auto simp: round_half_even_def Let_def abs_le_iff)
qed

lemma pow2_nat: "0 \<le> n \<Longrightarrow> (2::rat) ^ nat n = 2 powi n"
  by (simp add: power_int_def)

lemma ilog2_bounds:
  assumes "0 < x"
  shows "2 powi (ilog2 x) \<le> x \<and> x < 2 powi (ilog2 x + 1)"
proof -
  obtain p q where pq: "quotient_of x = (p, q)" by (cases "quotient_of x")
  then have q: "0 < q" and x: "x = of_int p / of_int q"
    by (auto simp: quotient_of_denom_pos quotient_of_div)
  with assms have p: "0 < p" by (simp add: zero_less_divide_iff)
  define k where "k = bitlen p - bitlen q"
  have bp: "1 \<le> bitlen p" and bq: "1 \<le> bitlen q"
    using p q bitlen_eq_zero_iff[of p] bitlen_eq_zero_iff[of q] bitlen_nonneg[of p] bitlen_nonneg[of q]
    by linarith+
  from bitlen_bounds[OF p] have "(2::int) ^ nat (bitlen p - 1) \<le> p" "p < 2 ^ nat (bitlen p)" by auto
  then have "(of_int ((2::int) ^ nat (bitlen p - 1)) :: rat) \<le> of_int p"
    "(of_int p :: rat) < of_int (2 ^ nat (bitlen p))"
    by (simp_all only: of_int_le_iff of_int_less_iff)
  then have P: "(2::rat) powi (bitlen p - 1) \<le> of_int p" "(of_int p :: rat) < 2 powi (bitlen p)"
    using bp by (simp_all add: pow2_nat[symmetric])
  from bitlen_bounds[OF q] have "(2::int) ^ nat (bitlen q - 1) \<le> q" "q < 2 ^ nat (bitlen q)" by auto
  then have "(of_int ((2::int) ^ nat (bitlen q - 1)) :: rat) \<le> of_int q"
    "(of_int q :: rat) < of_int (2 ^ nat (bitlen q))"
    by (simp_all only: of_int_le_iff of_int_less_iff)
  then have Q: "(2::rat) powi (bitlen q - 1) \<le> of_int q" "(of_int q :: rat) < 2 powi (bitlen q)"
    using bq by (simp_all add: pow2_nat[symmetric])
  have qpos: "(0::rat) < of_int q" using q by simp
  have up: "x < 2 powi (k + 1)"
  proof -
    have "of_int p < (2::rat) powi (bitlen p)" by (rule P)
    also have "\<dots> = 2 powi (k + 1) * 2 powi (bitlen q - 1)"
      by (simp add: k_def power_int_add[symmetric])
    also have "\<dots> \<le> 2 powi (k + 1) * of_int q"
      using Q(1) by (simp add: mult_left_mono)
    finally show ?thesis using qpos by (simp add: x pos_divide_less_eq)
  qed
  have lo: "2 powi (k - 1) \<le> x"
  proof -
    have "2 powi (k - 1) * of_int q \<le> (2::rat) powi (k - 1) * 2 powi (bitlen q)"
      using Q(2) by (simp add: mult_left_mono)
    also have "\<dots> = 2 powi (bitlen p - 1)"
      by (simp add: k_def power_int_add[symmetric])
    also have "\<dots> \<le> of_int p" by (rule P)
    finally show ?thesis using qpos by (simp add: x pos_le_divide_eq)
  qed
  have il: "ilog2 x = (if 2 powi k \<le> x then k else k - 1)"
    by (simp add: ilog2_def pq k_def Let_def)
  show ?thesis
  proof (cases "2 powi k \<le> x")
    case True
    with il up show ?thesis by simp
  next
    case False
    with il lo show ?thesis by simp
  qed
qed

lemma ilog2_ge: "0 < x \<Longrightarrow> 2 powi e \<le> x \<Longrightarrow> e \<le> ilog2 x"
proof (rule ccontr)
  assume x: "0 < x" and e: "2 powi e \<le> x" and n: "\<not> e \<le> ilog2 x"
  then have "ilog2 x + 1 \<le> e" by simp
  then have "(2::rat) powi (ilog2 x + 1) \<le> 2 powi e" by (simp add: power_int_increasing)
  with ilog2_bounds[OF x] e show False by linarith
qed

lemma ilog2_le: "0 < x \<Longrightarrow> x < 2 powi (e + 1) \<Longrightarrow> ilog2 x \<le> e"
proof (rule ccontr)
  assume x: "0 < x" and e: "x < 2 powi (e + 1)" and n: "\<not> ilog2 x \<le> e"
  then have "e + 1 \<le> ilog2 x" by simp
  then have "(2::rat) powi (e + 1) \<le> 2 powi (ilog2 x)" by (simp add: power_int_increasing)
  with ilog2_bounds[OF x] e show False by linarith
qed

lemma ilog2_mono: "0 < x \<Longrightarrow> x \<le> y \<Longrightarrow> ilog2 x \<le> ilog2 y"
  using ilog2_bounds[of x] ilog2_ge[of y "ilog2 x"] by simp

lemma ulp_pos [simp]: "0 < ulp x"
  by (simp add: ulp_def)

lemma ulp_nonneg [simp]: "0 \<le> ulp x"
  using ulp_pos[of x] by (simp only: less_imp_le)

lemma ulp_neq0 [simp]: "ulp x \<noteq> 0"
  by (simp add: ulp_def)

lemma pow2_shift:
  "(2::rat) powi (a + 1) / 2 powi (a - 52) = 2 ^ 53"
  "(2::rat) powi a / 2 powi (a - 52) = 2 ^ 52"
  "2 ^ 53 * (2::rat) powi (a - 52) = 2 powi (a + 1)"
  "2 ^ 52 * (2::rat) powi (a - 52) = 2 powi a"
  by (simp_all add: power_int_add power_int_diff)

lemma div_ulp_mono: "a \<le> b \<Longrightarrow> a / ulp x \<le> b / ulp x"
  by (rule divide_right_mono) simp_all

lemma rd_0 [simp]: "rd 0 = 0"
  by (simp add: rd_def)

lemma rd_nonneg: "0 \<le> x \<Longrightarrow> 0 \<le> rd x"
proof -
  assume "0 \<le> x"
  then have "0 / ulp x \<le> x / ulp x" by (rule div_ulp_mono)
  then have "of_int 0 \<le> x / ulp x" by simp
  from rhe_mono[OF this] have "0 \<le> round_half_even (x / ulp x)" by simp
  then show ?thesis by (simp add: rd_def)
qed

lemma rd_upper:
  assumes "0 < x"
  shows "rd x \<le> 2 powi (max (ilog2 x) (- 1022) + 1)"
proof -
  define E where "E = max (ilog2 x) (- 1022)"
  have u: "ulp x = 2 powi (E - 52)" using assms by (simp add: ulp_def E_def)
  have "x < 2 powi (ilog2 x + 1)" using ilog2_bounds[OF assms] by simp
  also have "\<dots> \<le> 2 powi (E + 1)" by (simp add: power_int_increasing E_def)
  finally have "x \<le> 2 powi (E + 1)" by simp
  then have "x / ulp x \<le> 2 powi (E + 1) / ulp x" by (rule div_ulp_mono)
  also have "\<dots> = of_int (2 ^ 53)" by (simp add: u pow2_shift)
  finally have "round_half_even (x / ulp x) \<le> 2 ^ 53"
    using rhe_mono[of "x / ulp x" "of_int (2 ^ 53)"] by (simp only: rhe_of_int)
  then have "(of_int (round_half_even (x / ulp x)) :: rat) \<le> of_int (2 ^ 53)"
    by (simp only: of_int_le_iff)
  then have "rd x \<le> of_int (2 ^ 53) * ulp x"
    using assms by (simp add: rd_def mult_right_mono)
  also have "\<dots> = 2 powi (E + 1)" using pow2_shift(3)[of E] by (simp add: u)
  finally show ?thesis by (simp add: E_def)
qed

lemma rd_lower:
  assumes "0 < x" "- 1022 \<le> ilog2 x"
  shows "2 powi (ilog2 x) \<le> rd x"
proof -
  define E where "E = ilog2 x"
  have u: "ulp x = 2 powi (E - 52)" using assms by (simp add: ulp_def E_def max_def)
  have "(of_int (2 ^ 52) :: rat) = 2 powi E / ulp x" by (simp add: u pow2_shift)
  also have "\<dots> \<le> x / ulp x"
    using ilog2_bounds[OF assms(1)] by (intro div_ulp_mono) (simp add: E_def)
  finally have "2 ^ 52 \<le> round_half_even (x / ulp x)"
    using rhe_mono[of "of_int (2 ^ 52)" "x / ulp x"] by (simp only: rhe_of_int)
  then have "(of_int (2 ^ 52) :: rat) \<le> of_int (round_half_even (x / ulp x))"
    by (simp only: of_int_le_iff)
  then have "of_int (2 ^ 52) * ulp x \<le> rd x"
    using assms by (simp add: rd_def mult_right_mono)
  moreover have "of_int (2 ^ 52) * ulp x = 2 powi E" using pow2_shift(4)[of E] by (simp add: u)
  ultimately show ?thesis by (simp add: E_def)
qed

text \<open>Rounding is monotone on the nonnegative rationals.\<close>

lemma rd_mono:
  assumes "0 \<le> x" "x \<le> y"
  shows "rd x \<le> rd y"
proof (cases "x = 0")
  case True
  with assms rd_nonneg[of y] show ?thesis by simp
next
  case False
  with assms have x: "0 < x" and y: "0 < y" by auto
  define Ex where "Ex = max (ilog2 x) (- 1022)"
  define Ey where "Ey = max (ilog2 y) (- 1022)"
  have le: "Ex \<le> Ey" using ilog2_mono[OF x assms(2)] by (simp add: Ex_def Ey_def)
  show ?thesis
  proof (cases "Ex = Ey")
    case True
    then have u: "ulp x = ulp y" using x y by (simp add: ulp_def Ex_def Ey_def)
    have "x / ulp y \<le> y / ulp y" using assms(2) by (rule div_ulp_mono)
    from rhe_mono[OF this]
    have "(of_int (round_half_even (x / ulp y)) :: rat) \<le> of_int (round_half_even (y / ulp y))"
      by (simp only: of_int_le_iff)
    then show ?thesis using x y by (simp add: rd_def u mult_right_mono)
  next
    case False
    with le have lt: "Ex < Ey" by simp
    then have Ey: "Ey = ilog2 y" "- 1022 \<le> ilog2 y" by (auto simp: Ex_def Ey_def max_def split: if_splits)
    have "rd x \<le> 2 powi (Ex + 1)" using rd_upper[OF x] by (simp add: Ex_def)
    also have "\<dots> \<le> 2 powi Ey" using lt by (simp add: power_int_increasing)
    also have "\<dots> \<le> rd y" using rd_lower[OF y Ey(2)] by (simp add: Ey(1))
    finally show ?thesis .
  qed
qed

text \<open>
  The rounding error is at most half a unit in the last place, hence at most a relative
  \<open>2 ^ 53\<close>-th for a value in the normal range; an integer below \<open>2 ^ 53\<close> is a double.
\<close>

lemma rd_error: "\<bar>rd x - x\<bar> \<le> ulp x / 2"
proof (cases "x = 0")
  case True
  then show ?thesis by (simp add: less_imp_le)
next
  case False
  have "rd x - x = (of_int (round_half_even (x / ulp x)) - x / ulp x) * ulp x"
    using False by (simp add: rd_def left_diff_distrib)
  then have "\<bar>rd x - x\<bar> = \<bar>of_int (round_half_even (x / ulp x)) - x / ulp x\<bar> * ulp x"
    by (simp add: abs_mult)
  also have "\<dots> \<le> 1 / 2 * ulp x"
    by (rule mult_right_mono[OF rhe_error]) (simp add: less_imp_le)
  finally show ?thesis by simp
qed

lemma rd_rel_error:
  assumes "2 powi (- 1022) \<le> x"
  shows "\<bar>rd x - x\<bar> \<le> x / 2 ^ 53"
proof -
  have x: "0 < x" using assms zero_less_power_int[of "2::rat" "- 1022"] by linarith
  from ilog2_ge[OF x assms] have "max (ilog2 x) (- 1022) = ilog2 x" by simp
  then have "ulp x = 2 powi (ilog2 x) / 2 ^ 52"
    using x pow2_shift(4)[of "ilog2 x"] by (simp add: ulp_def field_simps)
  also have "\<dots> \<le> x / 2 ^ 52" using ilog2_bounds[OF x] by (simp add: divide_right_mono)
  finally have "ulp x / 2 \<le> x / 2 ^ 52 / 2" by simp
  with rd_error[of x] show ?thesis by simp
qed

lemma rd_exact:
  assumes "x / ulp x = of_int n"
  shows "rd x = x"
proof -
  from assms have "x = of_int n * ulp x" by (simp add: nonzero_divide_eq_eq)
  with assms show ?thesis by (simp add: rd_def)
qed

lemma rd_of_int:
  assumes "0 \<le> n" "n < 2 ^ 53"
  shows "rd (of_int n) = of_int n"
proof (cases "n = 0")
  case True
  then show ?thesis by simp
next
  case False
  with assms have n: "0 < n" by simp
  then have x: "(0::rat) < of_int n" by simp
  have "(of_int n :: rat) < of_int (2 ^ 53)" using assms(2) by (simp only: of_int_less_iff)
  then have "(of_int n :: rat) < 2 powi (52 + 1)" by simp
  from ilog2_le[OF x this] have hi: "ilog2 (of_int n) \<le> 52" .
  have "(2::rat) powi 0 \<le> of_int n" using n by simp
  from ilog2_ge[OF x this] have lo: "0 \<le> ilog2 (of_int n :: rat)" .
  define d where "d = nat (52 - ilog2 (of_int n :: rat))"
  have "ulp (of_int n) = 2 powi (ilog2 (of_int n :: rat) - 52)"
    using lo x by (simp add: ulp_def max_def)
  also have "\<dots> = 1 / 2 ^ d"
    using hi by (simp add: d_def power_int_def inverse_eq_divide power_one_over[symmetric])
  finally have "of_int n / ulp (of_int n) = of_int (n * 2 ^ d)" by simp
  then show ?thesis by (rule rd_exact)
qed

lemma rd_1 [simp]: "rd 1 = 1"
  using rd_of_int[of 1] by simp

lemma rd_100 [simp]: "rd 100 = 100"
  using rd_of_int[of 100] by simp

lemma rd_unit: "0 \<le> x \<Longrightarrow> x \<le> 1 \<Longrightarrow> 0 \<le> rd x \<and> rd x \<le> 1"
  using rd_nonneg[of x] rd_mono[of x 1] by simp

lemma rd_percent: "0 \<le> x \<Longrightarrow> x \<le> 100 \<Longrightarrow> 0 \<le> rd x \<and> rd x \<le> 100"
  using rd_nonneg[of x] rd_mono[of x 100] by simp

lemma fround_small: "\<bar>rd x\<bar> < 2 ^ 1024 \<Longrightarrow> fround x = Fin (rd x)"
  by (simp add: fround_def Let_def)

lemma float_of_int_small: "small_total n \<Longrightarrow> float_of_int n = Inr (Fin (of_int n))"
proof -
  assume s: "small_total n"
  then have r: "rd (of_int n) = of_int n" by (simp add: small_total_def rd_of_int)
  from s have "(of_int n :: rat) < of_int (2 ^ 53)" "(0::rat) \<le> of_int n"
    unfolding small_total_def by (simp_all only: of_int_less_iff of_int_0_le_iff)
  then have "\<bar>of_int n :: rat\<bar> < 2 ^ 1024" by simp
  then show ?thesis by (simp add: float_of_int_def r Let_def)
qed

lemma float_of_int_nonneg:
  assumes "float_of_int n = Inr f" "0 \<le> n"
  shows "f = Fin (rd (of_int n)) \<and> 0 \<le> rd (of_int n :: rat)"
  using assms rd_nonneg[of "of_int n"]
  by (auto simp: float_of_int_def Let_def split: if_splits)

text \<open>
  The percentage \<open>100.0 * (float(a) / (a + r))\<close> of two nonnegative totals: it lies
  between 0 and 100, and for totals below \<open>2 ^ 53\<close> it is within a relative \<open>2 ^ 51\<close>-th
  of the exact quotient.
\<close>

lemma percentage_range:
  assumes a: "float_of_int a = Inr fa" and q: "fdiv_int fa (a + r) = Inr fq"
    and nn: "0 \<le> a" "0 \<le> r"
  shows "\<exists>x. fmul (Fin 100) fq = Fin x \<and> 0 \<le> x \<and> x \<le> 100"
proof -
  from float_of_int_nonneg[OF a nn(1)] have fa: "fa = Fin (rd (of_int a))"
    and a0: "0 \<le> rd (of_int a :: rat)" by simp_all
  from q obtain fs where s: "float_of_int (a + r) = Inr fs" and d: "fdiv fa fs = Inr fq"
    by (auto simp: fdiv_int_def and_then_def split: sum.splits)
  from nn have "0 \<le> a + r" by simp
  from float_of_int_nonneg[OF s this] have fs: "fs = Fin (rd (of_int (a + r)))" by simp
  have le: "rd (of_int a :: rat) \<le> rd (of_int (a + r))"
    using nn by (intro rd_mono) simp_all
  from d have nz: "rd (of_int (a + r) :: rat) \<noteq> 0"
    and fq: "fq = fround (rd (of_int a) / rd (of_int (a + r)))"
    by (auto simp: fa fs split: if_splits)
  define t :: rat where "t = rd (of_int a) / rd (of_int (a + r))"
  from a0 le nz have t: "0 \<le> t" "t \<le> 1" by (simp_all add: t_def divide_le_eq_1)
  from rd_unit[OF t] have u: "0 \<le> rd t" "rd t \<le> 1" by simp_all
  then have "\<bar>rd t\<bar> < 2 ^ 1024" by simp
  then have "fround t = Fin (rd t)" by (rule fround_small)
  then have fq': "fq = Fin (rd t)" unfolding fq t_def .
  from u have "0 \<le> 100 * rd t" "100 * rd t \<le> 100" by simp_all
  from rd_percent[OF this] have p: "0 \<le> rd (100 * rd t)" "rd (100 * rd t) \<le> 100" by simp_all
  then have "\<bar>rd (100 * rd t)\<bar> < 2 ^ 1024" by simp
  then have "fmul (Fin 100) fq = Fin (rd (100 * rd t))" by (simp add: fq' fround_small)
  with p show ?thesis by simp
qed

lemma tiny: "(2::rat) powi (- 1022) \<le> 1 / 2 ^ 54" "(2::rat) powi (- 1022) \<le> 1 / 2 ^ 53"
  by simp_all

lemma rel_error_lower:
  fixes q q1 :: rat
  assumes e1: "\<bar>q1 - q\<bar> \<le> q / 2 ^ 53" and qlo: "1 / 2 ^ 53 \<le> q"
  shows "1 / 2 ^ 54 \<le> q1"
proof -
  from e1 have "q - q / 2 ^ 53 \<le> q1" by linarith
  with qlo show ?thesis by simp
qed

lemma two_roundings:
  fixes q q1 R :: rat
  assumes e1: "\<bar>q1 - q\<bar> \<le> q / 2 ^ 53" and e2: "\<bar>R - 100 * q1\<bar> \<le> 100 * q1 / 2 ^ 53"
    and qlo: "1 / 2 ^ 53 \<le> q"
  shows "\<bar>R - 100 * q\<bar> \<le> 100 * q / 2 ^ 51"
proof -
  from e1 have a: "q - q / 2 ^ 53 \<le> q1" "q1 \<le> q + q / 2 ^ 53" by linarith+
  from e2 have b: "100 * q1 - 100 * q1 / 2 ^ 53 \<le> R" "R \<le> 100 * q1 + 100 * q1 / 2 ^ 53"
    by linarith+
  have q0: "0 \<le> q" using qlo by simp
  from a b q0 have "R - 100 * q \<le> 100 * q / 2 ^ 51" "- (100 * q / 2 ^ 51) \<le> R - 100 * q"
    by simp_all
  then show ?thesis by linarith
qed

lemma double_percentage:
  assumes "0 \<le> a" "a \<le> s" "0 < s" "s < 2 ^ 53"
  defines "q \<equiv> (of_int a / of_int s :: rat)"
  shows "\<bar>rd (100 * rd q) - 100 * q\<bar> \<le> 100 * q / 2 ^ 51"
proof (cases "a = 0")
  case True
  then show ?thesis by (simp add: q_def)
next
  case False
  with assms(1) have a1: "1 \<le> a" by simp
  have spos: "(0::rat) < of_int s" using assms(3) by simp
  have "(of_int s :: rat) < of_int (2 ^ 53)" using assms(4) by (simp only: of_int_less_iff)
  then have s53: "(of_int s :: rat) < 2 ^ 53" by simp
  have "(1::rat) \<le> of_int a" using a1 by simp
  then have "1 / of_int s \<le> q" using spos by (simp add: q_def divide_right_mono)
  moreover have "1 / 2 ^ 53 < 1 / (of_int s :: rat)"
    using spos s53 by (simp add: divide_strict_left_mono)
  ultimately have qlo: "1 / 2 ^ 53 \<le> q" by simp
  with tiny(2) have "2 powi (- 1022) \<le> q" by (rule order_trans)
  from rd_rel_error[OF this] have e1: "\<bar>rd q - q\<bar> \<le> q / 2 ^ 53" .
  from e1 qlo have q1: "1 / 2 ^ 54 \<le> rd q" by (rule rel_error_lower)
  then have "0 \<le> rd q" by simp
  then have "rd q \<le> 100 * rd q" by simp
  with tiny(1) q1 have "2 powi (- 1022) \<le> 100 * rd q" by (meson order_trans)
  from rd_rel_error[OF this] have e2: "\<bar>rd (100 * rd q) - 100 * rd q\<bar> \<le> 100 * rd q / 2 ^ 53" .
  from e1 e2 qlo show ?thesis by (rule two_roundings)
qed

lemma percentage_accuracy:
  assumes nn: "0 \<le> a" "0 \<le> r" and nz: "a \<noteq> 0 \<or> r \<noteq> 0" and sm: "a + r < 2 ^ 53"
  shows "\<exists>fq x. float_of_int a = Inr (Fin (of_int a)) \<and> fdiv_int (Fin (of_int a)) (a + r) = Inr fq
           \<and> fmul (Fin 100) fq = Fin x \<and> fmul fq (Fin 100) = Fin x
           \<and> \<bar>x - 100 * of_int a / of_int (a + r)\<bar> \<le> 100 * of_int a / of_int (a + r) / 2 ^ 51"
proof -
  define s where "s = a + r"
  have s: "0 < s" "a \<le> s" "s < 2 ^ 53" using nn nz sm by (auto simp: s_def)
  define q :: rat where "q = of_int a / of_int s"
  have fa: "float_of_int a = Inr (Fin (of_int a))"
    using nn s by (intro float_of_int_small) (simp add: small_total_def)
  have fs: "float_of_int s = Inr (Fin (of_int s))"
    using s by (intro float_of_int_small) (simp add: small_total_def)
  have q01: "0 \<le> q" "q \<le> 1" using nn s by (simp_all add: q_def divide_le_eq_1)
  from rd_unit[OF q01] have u: "0 \<le> rd q" "rd q \<le> 1" by simp_all
  then have "\<bar>rd q\<bar> < 2 ^ 1024" by simp
  then have fq: "fround q = Fin (rd q)" by (rule fround_small)
  have d: "fdiv_int (Fin (of_int a)) s = Inr (Fin (rd q))"
    using s(1) fq by (simp add: fdiv_int_def and_then_def fs q_def)
  from u have "0 \<le> 100 * rd q" "100 * rd q \<le> 100" by simp_all
  from rd_percent[OF this] have p: "0 \<le> rd (100 * rd q)" "rd (100 * rd q) \<le> 100" by simp_all
  then have "\<bar>rd (100 * rd q)\<bar> < 2 ^ 1024" by simp
  then have m: "fround (100 * rd q) = Fin (rd (100 * rd q))" by (rule fround_small)
  have acc: "\<bar>rd (100 * rd q) - 100 * q\<bar> \<le> 100 * q / 2 ^ 51"
    unfolding q_def using nn(1) s(2,1,3) by (rule double_percentage)
  show ?thesis
    apply (rule exI[of _ "Fin (rd q)"], rule exI[of _ "rd (100 * rd q)"])
    using fa d m acc by (simp add: s_def q_def mult.commute)
qed

text \<open>Operations on concrete doubles.\<close>

lemma fdiv_int_Fin:
  assumes "small_total n" "n \<noteq> 0" "rd (x / of_int n) = y" "\<bar>y\<bar> < 2 ^ 1024"
  shows "fdiv_int (Fin x) n = Inr (Fin y)"
  using assms fround_small[of "x / of_int n"]
  by (simp add: fdiv_int_def and_then_def float_of_int_small)

lemma fmul_Fin:
  assumes "rd (x * y) = z" "\<bar>z\<bar> < 2 ^ 1024"
  shows "fmul (Fin x) (Fin y) = Fin z"
  using assms fround_small[of "x * y"] by simp

lemma fmul_int_Fin:
  assumes "small_total n" "rd (x * of_int n) = y" "\<bar>y\<bar> < 2 ^ 1024"
  shows "fmul_int (Fin x) n = Inr (Fin y)"
  using assms fmul_Fin[of x "of_int n" y]
  by (simp add: fmul_int_def and_then_def float_of_int_small)

lemma float_of_int_numeral:
  "float_of_int 29 = Inr (Fin 29)"
  "float_of_int 65536 = Inr (Fin 65536)"
  "float_of_int 600000 = Inr (Fin 600000)"
  "float_of_int 100 = Inr (Fin 100)"
  using float_of_int_small[of 29] float_of_int_small[of 65536] float_of_int_small[of 600000]
    float_of_int_small[of 100]
  by (simp_all add: small_total_def)

lemma pool_rate_eval:
  "and_then (float_of_int 600000) (\<lambda>f. fdiv_int f 600000) = Inr (Fin 1)"
proof -
  have "fdiv_int (Fin 600000) 600000 = Inr (Fin 1)"
    by (rule fdiv_int_Fin) (simp add: small_total_def, simp, code_simp, simp)
  then show ?thesis by (simp add: and_then_def float_of_int_numeral)
qed

lemma hashrate_eval_600000:
  "and_then (and_then (float_of_int 65536) (\<lambda>h. fmul_int h 600000))
     (\<lambda>h. and_then (fdiv_int h 1000000) (\<lambda>m. fdiv_int m 600))
     = Inr (Fin (1152921504606847 / 17592186044416))"
proof -
  have 1: "fmul_int (Fin 65536) 600000 = Inr (Fin 39321600000)"
    by (rule fmul_int_Fin) (simp add: small_total_def, code_simp, simp)
  have 2: "fdiv_int (Fin 39321600000) 1000000 = Inr (Fin (5404319552844595 / 137438953472))"
    by (rule fdiv_int_Fin) (simp add: small_total_def, simp, code_simp, simp)
  have 3: "fdiv_int (Fin (5404319552844595 / 137438953472)) 600
             = Inr (Fin (1152921504606847 / 17592186044416))"
    by (rule fdiv_int_Fin) (simp add: small_total_def, simp, code_simp, simp)
  show ?thesis by (simp add: and_then_def float_of_int_numeral 1 2 3)
qed

lemma hashrate_eval_29:
  "and_then (and_then (float_of_int 65536) (\<lambda>h. fmul_int h 29))
     (\<lambda>h. and_then (fdiv_int h 1000000) (\<lambda>m. fdiv_int m 600))
     = Inr (Fin (7303926826838385 / 2305843009213693952))"
proof -
  have 1: "fmul_int (Fin 65536) 29 = Inr (Fin 1900544)"
    by (rule fmul_int_Fin) (simp add: small_total_def, code_simp, simp)
  have 2: "fdiv_int (Fin 1900544) 1000000 = Inr (Fin (534955578137577 / 281474976710656))"
    by (rule fdiv_int_Fin) (simp add: small_total_def, simp, code_simp, simp)
  have 3: "fdiv_int (Fin (534955578137577 / 281474976710656)) 600
             = Inr (Fin (7303926826838385 / 2305843009213693952))"
    by (rule fdiv_int_Fin) (simp add: small_total_def, simp, code_simp, simp)
  show ?thesis by (simp add: and_then_def float_of_int_numeral 1 2 3)
qed

lemma hashrate_eval_0:
  "and_then (and_then (float_of_int 65536) (\<lambda>h. fmul_int h 0))
     (\<lambda>h. and_then (fdiv_int h 1000000) (\<lambda>m. fdiv_int m 600))
     = Inr (Fin 0)"
proof -
  have 1: "fmul_int (Fin 65536) 0 = Inr (Fin 0)"
    by (rule fmul_int_Fin) (simp_all add: small_total_def)
  have 2: "fdiv_int (Fin 0) 1000000 = Inr (Fin 0)"
    by (rule fdiv_int_Fin) (simp_all add: small_total_def)
  have 3: "fdiv_int (Fin 0) 600 = Inr (Fin 0)"
    by (rule fdiv_int_Fin) (simp_all add: small_total_def)
  show ?thesis by (simp add: and_then_def float_of_int_numeral 1 2 3)
qed

lemma efficiency_eval_29_71:
  "fdiv_int (Fin 29) 100 = Inr (Fin (5224175567749775 / 18014398509481984))"
  "fmul_int (Fin (5224175567749775 / 18014398509481984)) 100
     = Inr (Fin (8162774324609023 / 281474976710656))"
  "fmul (Fin 100) (Fin (5224175567749775 / 18014398509481984))
     = Fin (8162774324609023 / 281474976710656)"
proof -
  show "fdiv_int (Fin 29) 100 = Inr (Fin (5224175567749775 / 18014398509481984))"
    by (rule fdiv_int_Fin) (simp add: small_total_def, simp, code_simp, simp)
  show "fmul_int (Fin (5224175567749775 / 18014398509481984)) 100
     = Inr (Fin (8162774324609023 / 281474976710656))"
    by (rule fmul_int_Fin) (simp add: small_total_def, code_simp, simp)
  show "fmul (Fin 100) (Fin (5224175567749775 / 18014398509481984))
     = Fin (8162774324609023 / 281474976710656)"
    by (rule fmul_Fin) (code_simp, simp)
qed

section \<open>Properties of validate_message_vals\<close>

lemmas decimal_defs = Decimal_def Decimal_str_def strip_def split_sign_def parse_number_def
  parse_exponent_def parse_special_def is_digit_def is_space_def lower_def lower_char_def
  digits_val_def digit_val_def pow10_def quantize_cents_def round_half_even_def div_100_def
  dec_gt_def dec_lt_def convert_donate_def check_donate_def

lemma check_set_addrs_unbound: "xs \<noteq> [] \<Longrightarrow> check_set_addrs None xs = Inl NameError"
  by (cases xs) auto

lemma validate_name_error:
  "SETADDR kw \<noteq> [] \<Longrightarrow> validate_message_vals None kw = Inl NameError"
  by (simp add: validate_message_vals_def check_set_addrs_unbound)

text \<open>
  C3. The donation check accepts the percentages 0 and 100 (fractions 0 and 1), but it
  does not reject every fraction outside [0, 1]: line 417 compares the value that line
  413 has already divided by 100 with \<open>100.0\<close>, so the percentage 150 (fraction 3/2) passes
  and is returned.
\<close>

theorem validate_donate_150_accepted:
  "validate_message_vals chk (donate_only (PyStr ''150''))
     = Inr ([], [], DFinite (3 / 2), PyBool False)
   \<and> validate_message_vals chk (donate_only (PyStr ''0''))
     = Inr ([], [], DFinite 0, PyBool False)
   \<and> validate_message_vals chk (donate_only (PyStr ''100''))
     = Inr ([], [], DFinite 1, PyBool False)"
  by (simp add: validate_message_vals_def donate_only_def decimal_defs)

text \<open>
  C4. For a \<open>SETADDR\<close> entry \<open>validate_message_vals\<close> raises no \<open>CommandException\<close>
  "Invalid currency address passed!": line 408 calls \<open>check_valid_currency\<close>, a name that
  utils.py neither defines nor imports, so the first entry raises \<open>NameError\<close> before the
  length test of line 409, for an address of 33 characters as for a well-formed one.
\<close>

theorem validate_message_vals_name_error:
  "validate_message_vals (None :: string currency_check option)
     (demo_kwargs ''1A1zP1eP5QGefi2DMPTfTL5SLmv7DivfN'' (PyInt 0)) = Inl NameError
   \<and> validate_message_vals (None :: string currency_check option)
     (demo_kwargs ''1A1zP1eP5QGefi2DMPTfTL5SLmv7DivfNa'' (PyInt 0)) = Inl NameError"
  by (simp add: validate_name_error demo_kwargs_def)

text \<open>
  C5. A \<open>SETDONATE\<close> value that is not a decimal literal is not turned into the
  \<open>CommandException\<close> "unable to be converted": \<open>Decimal('abc')\<close> raises
  \<open>InvalidOperation\<close>, the \<open>except\<close> clause of line 414 catches \<open>TypeError\<close> only, and
  \<open>InvalidOperation\<close> leaves \<open>validate_message_vals\<close>.
\<close>

theorem validate_donate_unparseable_escapes:
  "validate_message_vals chk (donate_only (PyStr ''abc'')) = Inl InvalidOperation"
  by (simp add: validate_message_vals_def donate_only_def decimal_defs)

text \<open>
  With the name bound to a function, the loop of lines 407 to 410 rejects an address that
  is not 34 characters long or that the function refuses, and accepts the others.
\<close>

lemma check_set_addrs_bad:
  "\<exists>(c, a) \<in> set xs. length a \<noteq> 34 \<or> chk a = None \<Longrightarrow>
   check_set_addrs (Some chk) xs = Inl (CommandException ''Invalid currency address passed!'')"
proof (induction xs)
  case Nil
  then show ?case by simp
next
  case (Cons x xs)
  obtain c a where x: "x = (c, a)" by (cases x)
  show ?case
  proof (cases "length a \<noteq> 34 \<or> chk a = None")
    case True
    then show ?thesis by (simp add: x Let_def)
  next
    case False
    with Cons.prems have "\<exists>(c, a) \<in> set xs. length a \<noteq> 34 \<or> chk a = None"
      by (auto simp: x)
    from Cons.IH[OF this] False show ?thesis by (simp add: x Let_def)
  qed
qed

lemma check_set_addrs_good:
  "\<forall>(c, a) \<in> set xs. length a = 34 \<and> chk a \<noteq> None \<Longrightarrow> check_set_addrs (Some chk) xs = Inr ()"
  by (induction xs) (auto simp: Let_def)

section \<open>Properties of the pool-wide figures\<close>

lemma demo_pool_sums:
  "sum_list (map val (filter
      (\<lambda>r. user r = ''pool'' \<and> demo_now - minutes 12 \<le> time r \<and> time r \<le> demo_now - minutes 2)
      (rows demo_store OneMinuteShare))) = 600000"
  "sum_list (map val (filter
      (\<lambda>r. user r = ''pool'' \<and> demo_now - minutes 12 \<le> time r \<and> time r < demo_now - minutes 2)
      (rows demo_store OneMinuteShare))) = 600000"
  by (simp_all add: demo_store_def demo_rows_def demo_slice_def demo_now_def demo_stamp_def
      hours_def minutes_def)

text \<open>
  C6. \<open>get_pool_hashrate\<close> is not the per-user formula: line 220 divides the sum of the
  window by 600000 and never multiplies by the hashes per share, which its own comment
  and \<open>shares_to_hashes\<close> in the per-user lines 306 and 327 do. For one pool share of value
  600000 five minutes ago it returns 1.0 where the per-user formula gives 65.536.
\<close>

theorem get_pool_hashrate_omits_shares_to_hashes:
  "get_pool_hashrate demo_store demo_now = Inr (Fin 1)
   \<and> per_user_formula_pool_hashrate demo_cfg demo_store demo_now
       = Inr (Fin (1152921504606847 / 17592186044416))"
  by (simp add: get_pool_hashrate_def per_user_formula_pool_hashrate_def Let_def demo_pool_sums
      shares_to_hashes_def demo_cfg_def pool_rate_eval hashrate_eval_600000)

lemma demo_acc_rej:
  "get_pool_acc_rej demo_store demo_now None = (0, 0)"
  "get_pool_acc_rej demo_store demo_now (Some (days 1)) = (71, 29)"
  by (simp_all add: get_pool_acc_rej_def demo_store_def demo_rows_def demo_slice_def
      demo_now_def demo_stamp_def hours_def minutes_def days_def)

text \<open>
  C7. With the totals that \<open>get_pool_acc_rej\<close> returns: \<open>get_pool_eff\<close> is exactly 100
  when both are zero; for nonnegative totals that are not both zero and whose sum is below
  \<open>2 ^ 53\<close> it returns the double \<open>(float(acc) / (acc + rej)) * 100\<close>, which differs from
  100 * accepted / (accepted + rejected) by at most a relative \<open>2 ^ 51\<close>-th. It is not that
  quotient itself: for 29 accepted and 71 rejected it is 28.999999999999996.
\<close>

theorem get_pool_eff_value:
  assumes "get_pool_acc_rej db now td = (rej, acc)"
  shows "(rej = 0 \<and> acc = 0 \<longrightarrow> get_pool_eff db now td = Inr (Fin 100))
       \<and> (0 \<le> rej \<and> 0 \<le> acc \<and> (rej \<noteq> 0 \<or> acc \<noteq> 0) \<and> acc + rej < 2 ^ 53 \<longrightarrow>
            (\<exists>x. get_pool_eff db now td = Inr (Fin x)
               \<and> \<bar>x - 100 * of_int acc / of_int (acc + rej)\<bar>
                   \<le> 100 * of_int acc / of_int (acc + rej) / 2 ^ 51))"
proof (intro conjI impI)
  assume "rej = 0 \<and> acc = 0"
  with assms show "get_pool_eff db now td = Inr (Fin 100)" by (simp add: get_pool_eff_def)
next
  assume h: "0 \<le> rej \<and> 0 \<le> acc \<and> (rej \<noteq> 0 \<or> acc \<noteq> 0) \<and> acc + rej < 2 ^ 53"
  then have "0 \<le> acc" "0 \<le> rej" "acc \<noteq> 0 \<or> rej \<noteq> 0" "acc + rej < 2 ^ 53" by auto
  from percentage_accuracy[OF this] obtain fq x where
    a: "float_of_int acc = Inr (Fin (of_int acc))"
    and q: "fdiv_int (Fin (of_int acc)) (acc + rej) = Inr fq"
    and m: "fmul fq (Fin 100) = Fin x"
    and e: "\<bar>x - 100 * of_int acc / of_int (acc + rej)\<bar>
              \<le> 100 * of_int acc / of_int (acc + rej) / 2 ^ 51"
    by blast
  from h assms a q m have "get_pool_eff db now td = Inr (Fin x)"
    by (auto simp: get_pool_eff_def and_then_def fmul_int_def float_of_int_numeral)
  with e show "\<exists>x. get_pool_eff db now td = Inr (Fin x)
               \<and> \<bar>x - 100 * of_int acc / of_int (acc + rej)\<bar>
                   \<le> 100 * of_int acc / of_int (acc + rej) / 2 ^ 51" by blast
qed

theorem get_pool_eff_value_witness:
  "get_pool_acc_rej demo_store demo_now None = (0, 0)
   \<and> get_pool_eff demo_store demo_now None = Inr (Fin 100)
   \<and> get_pool_acc_rej demo_store demo_now (Some (days 1)) = (71, 29)
   \<and> (\<exists>x. get_pool_eff demo_store demo_now (Some (days 1)) = Inr (Fin x)
          \<and> \<bar>x - 100 * 29 / (29 + 71)\<bar> \<le> 100 * 29 / (29 + 71) / 2 ^ 51)"
  using get_pool_eff_value[OF demo_acc_rej(1)] get_pool_eff_value[OF demo_acc_rej(2)]
    demo_acc_rej
  by simp

theorem get_pool_eff_not_exact:
  "get_pool_acc_rej demo_store demo_now (Some (days 1)) = (71, 29)
   \<and> get_pool_eff demo_store demo_now (Some (days 1))
       = Inr (Fin (8162774324609023 / 281474976710656))
   \<and> (8162774324609023 / 281474976710656 :: rat) \<noteq> 100 * 29 / (29 + 71)"
  by (simp add: get_pool_eff_def demo_acc_rej and_then_def float_of_int_numeral
      efficiency_eval_29_71)

section \<open>Properties of compress_typ\<close>

lemma add_to_bucket_commute:
  "add_to_bucket k s v (add_to_bucket k' s' v' w) = add_to_bucket k' s' v' (add_to_bucket k s v w)"
  by (rule ext) (auto simp: add_to_bucket_def Let_def fun_upd_twist split: option.splits)

lemma bucket_total_add:
  "bucket_total (add_to_bucket k s v w) k' s' =
     bucket_total w k' s' + (if k = k' \<and> s = s' then v else 0)"
  by (auto simp: bucket_total_def add_to_bucket_def Let_def split: option.splits)

lemma compress_slice_commute:
  "compress_slice db ty wrk a \<circ> compress_slice db ty wrk b =
   compress_slice db ty wrk b \<circ> compress_slice db ty wrk a"
  by (rule ext) (simp add: compress_slice_def add_to_bucket_commute)

lemma bucket_total_fold:
  "bucket_total (fold (compress_slice db ty wrk) xs w) k s =
     bucket_total w k s +
     sum_list (map val (filter (\<lambda>slc. slice_key wrk slc = k \<and> slice_stamp db ty wrk slc = s) xs))"
  by (induction xs arbitrary: w) (auto simp: compress_slice_def bucket_total_add)

lemma get_typ_unwindowed_mset:
  "mset rs = mset (rows db ty) \<Longrightarrow>
   mset (get_typ (db\<lparr>rows := (rows db)(ty := rs)\<rparr>) now' ty address False wrk q) =
   mset (get_typ db now ty address False wrk q)"
  by (simp add: get_typ_def Let_def split: option.splits)

lemma slice_stamp_rows [simp]:
  "slice_stamp (db\<lparr>rows := r\<rparr>) ty wrk = slice_stamp db ty wrk"
  by (rule ext) (simp add: slice_stamp_def)

lemma compress_slice_rows [simp]:
  "compress_slice (db\<lparr>rows := r\<rparr>) ty wrk = compress_slice db ty wrk"
  by (rule ext)+ (simp add: compress_slice_def)

text \<open>
  C9. \<open>compress_typ\<close> is order-independent and purely additive: a table whose rows are
  the same records in another order gives the same \<open>workers\<close> mapping, and every bucket
  total after the call is the total before it plus the values of the records that fall
  into that bucket, so an existing total is added to and never replaced.
\<close>

theorem compress_typ_additive_order_independent:
  "(mset rs = mset (rows db ty) \<longrightarrow>
      compress_typ (db\<lparr>rows := (rows db)(ty := rs)\<rparr>) now' ty workers address wrk =
      compress_typ db now ty workers address wrk)
   \<and> bucket_total (compress_typ db now ty workers address wrk) k ts =
       bucket_total workers k ts +
       sum_list (map val (filter (\<lambda>slc. slice_key wrk slc = k \<and> slice_stamp db ty wrk slc = ts)
                            (get_typ db now ty address False wrk None)))"
proof (intro conjI impI)
  assume m: "mset rs = mset (rows db ty)"
  have "fold (compress_slice db ty wrk)
          (get_typ (db\<lparr>rows := (rows db)(ty := rs)\<rparr>) now' ty address False wrk None) =
        fold (compress_slice db ty wrk) (get_typ db now ty address False wrk None)"
    by (rule fold_multiset_equiv) (simp_all add: compress_slice_commute get_typ_unwindowed_mset[OF m])
  then show "compress_typ (db\<lparr>rows := (rows db)(ty := rs)\<rparr>) now' ty workers address wrk =
      compress_typ db now ty workers address wrk"
    by (simp add: compress_typ_def)
next
  show "bucket_total (compress_typ db now ty workers address wrk) k ts =
       bucket_total workers k ts +
       sum_list (map val (filter (\<lambda>slc. slice_key wrk slc = k \<and> slice_stamp db ty wrk slc = ts)
                            (get_typ db now ty address False wrk None)))"
    by (simp add: compress_typ_def bucket_total_fold)
qed

theorem compress_typ_additive_order_independent_witness:
  "mset (rev (rows demo_store OneMinuteShare)) = mset (rows demo_store OneMinuteShare)
   \<and> compress_typ (demo_store\<lparr>rows := (rows demo_store)(OneMinuteShare := rev (rows demo_store OneMinuteShare))\<rparr>)
        demo_now OneMinuteShare Map.empty None None
     = compress_typ demo_store demo_now OneMinuteShare Map.empty None None
   \<and> bucket_total (compress_typ demo_store demo_now OneMinuteShare
         (add_to_bucket ''rig1'' (timegm (demo_now - minutes 5)) 7 Map.empty) None None)
        ''rig1'' (timegm (demo_now - minutes 5)) = 7 + 29"
  using compress_typ_additive_order_independent[where rs = "rev (rows demo_store OneMinuteShare)"
      and db = demo_store and ty = OneMinuteShare and now = demo_now and now' = demo_now
      and workers = Map.empty and address = None and wrk = None and k = "''rig1''"
      and ts = "timegm (demo_now - minutes 5)"]
    compress_typ_additive_order_independent[where rs = "rev (rows demo_store OneMinuteShare)"
      and db = demo_store and ty = OneMinuteShare and now = demo_now and now' = demo_now
      and workers = "add_to_bucket ''rig1'' (timegm (demo_now - minutes 5)) 7 Map.empty"
      and address = None and wrk = None and k = "''rig1''"
      and ts = "timegm (demo_now - minutes 5)"]
  by (simp add: bucket_total_def add_to_bucket_def get_typ_def demo_store_def demo_rows_def
      demo_slice_def slice_key_def slice_stamp_def timegm_def demo_now_def demo_stamp_def
      hours_def minutes_def)

section \<open>Properties of collect_user_stats\<close>

lemma worker_efficiency_zero:
  "accepted w = 0 \<Longrightarrow> rejected w = 0 \<Longrightarrow> worker_efficiency w = Inr None"
  by (simp add: worker_efficiency_def)

lemma worker_efficiency_none:
  "worker_efficiency w = Inr eff \<Longrightarrow> accepted w = 0 \<Longrightarrow> rejected w = 0 \<Longrightarrow> eff = None"
  by (simp add: worker_efficiency_def)

lemma worker_efficiency_accuracy:
  assumes "0 \<le> accepted w" "0 \<le> rejected w" "accepted w \<noteq> 0 \<or> rejected w \<noteq> 0"
    "accepted w + rejected w < 2 ^ 53"
  shows "\<exists>x. worker_efficiency w = Inr (Some (Fin x))
           \<and> \<bar>x - 100 * of_int (accepted w) / of_int (accepted w + rejected w)\<bar>
               \<le> 100 * of_int (accepted w) / of_int (accepted w + rejected w) / 2 ^ 51"
proof -
  from percentage_accuracy[OF assms] obtain fq x where
    a: "float_of_int (accepted w) = Inr (Fin (of_int (accepted w)))"
    and q: "fdiv_int (Fin (of_int (accepted w))) (accepted w + rejected w) = Inr fq"
    and m: "fmul (Fin 100) fq = Fin x"
    and e: "\<bar>x - 100 * of_int (accepted w) / of_int (accepted w + rejected w)\<bar>
              \<le> 100 * of_int (accepted w) / of_int (accepted w + rejected w) / 2 ^ 51"
    by blast
  from assms(3) a q m have "worker_efficiency w = Inr (Some (Fin x))"
    by (auto simp: worker_efficiency_def and_then_def)
  with e show ?thesis by blast
qed

lemma worker_efficiency_range:
  assumes "worker_efficiency w = Inr (Some e)" "0 \<le> accepted w" "0 \<le> rejected w"
  shows "\<exists>x. e = Fin x \<and> 0 \<le> x \<and> x \<le> 100"
proof -
  from assms(1) obtain fa fq where a: "float_of_int (accepted w) = Inr fa"
    and q: "fdiv_int fa (accepted w + rejected w) = Inr fq" and e: "e = fmul (Fin 100) fq"
    by (auto simp: worker_efficiency_def and_then_def split: if_splits sum.splits)
  from percentage_range[OF a q assms(2,3)] e show ?thesis by simp
qed

lemma finish_worker_fields:
  "finish_worker cfg (nm, w) = Inr s \<Longrightarrow>
   accepted s = accepted w \<and> rejected s = rejected w \<and> worker_efficiency w = Inr (efficiency s)"
  by (auto simp: finish_worker_def and_then_def worker_acc.extend_def split: sum.splits)

lemma finish_workers_member:
  "finish_workers cfg al = Inr ws \<Longrightarrow> s \<in> set ws \<Longrightarrow>
   \<exists>nm w. (nm, w) \<in> set al \<and> finish_worker cfg (nm, w) = Inr s"
proof (induction al arbitrary: ws)
  case Nil
  then show ?case by simp
next
  case (Cons nw al)
  from Cons.prems(1) obtain w ws' where fw: "finish_worker cfg nw = Inr w"
    and fws: "finish_workers cfg al = Inr ws'" and ws: "ws = w # ws'"
    by (auto split: sum.splits)
  from Cons.prems(2) ws consider "s = w" | "s \<in> set ws'" by auto
  then show ?case
  proof cases
    case 1
    with fw show ?thesis by (cases nw) auto
  next
    case 2
    from Cons.IH[OF fws 2] show ?thesis by auto
  qed
qed

lemma collect_member:
  assumes "collect_user_stats_workers db cfg now address = Inr ws" "s \<in> set ws"
  shows "\<exists>w. accepted s = accepted w \<and> rejected s = rejected w
            \<and> worker_efficiency w = Inr (efficiency s)"
proof -
  from assms obtain ws' where f: "finish_workers cfg (accumulate_workers db now address) = Inr ws'"
    and ws: "ws = sort_key name ws'"
    by (auto simp: collect_user_stats_workers_def split: sum.splits)
  from assms(2) ws have "s \<in> set ws'" by simp
  from finish_workers_member[OF f this] finish_worker_fields show ?thesis by blast
qed

lemma fdiv_nonzero: "y \<noteq> 0 \<Longrightarrow> \<exists>z. fdiv a (Fin y) = Inr z"
  by (cases a) auto

lemma fdiv_int_constant:
  "small_total n \<Longrightarrow> n \<noteq> 0 \<Longrightarrow> \<exists>z. fdiv_int a n = Inr z"
  using fdiv_nonzero[of "of_int n" a]
  by (simp add: fdiv_int_def and_then_def float_of_int_small)

lemma worker_hashrate_total:
  assumes "small_config cfg" "small_total (last_10_shares w)"
  shows "\<exists>r. worker_hashrate cfg w = Inr r"
proof -
  have h: "small_total (case hashes_per_share cfg of None \<Rightarrow> 65536 | Some h \<Rightarrow> h)"
    using assms(1) by (simp add: small_config_def small_total_def split: option.splits)
  then obtain x where s: "shares_to_hashes cfg (last_10_shares w) = Inr x"
    using assms(2)
    by (simp add: shares_to_hashes_def and_then_def fmul_int_def float_of_int_small)
  obtain m where m: "fdiv_int x 1000000 = Inr m"
    using fdiv_int_constant[of 1000000 x] by (auto simp: small_total_def)
  obtain r where r: "fdiv_int m 600 = Inr r"
    using fdiv_int_constant[of 600 m] by (auto simp: small_total_def)
  show ?thesis by (simp add: worker_hashrate_def and_then_def s m r)
qed

lemma worker_efficiency_total:
  assumes "0 \<le> accepted w" "0 \<le> rejected w" "accepted w + rejected w < 2 ^ 53"
  shows "\<exists>eff. worker_efficiency w = Inr eff"
proof (cases "accepted w = 0 \<and> rejected w = 0")
  case True
  then show ?thesis by (simp add: worker_efficiency_def)
next
  case False
  then have "accepted w \<noteq> 0 \<or> rejected w \<noteq> 0" by simp
  from worker_efficiency_accuracy[OF assms(1,2) this assms(3)] show ?thesis by blast
qed

lemma finish_workers_total:
  "small_config cfg \<Longrightarrow> small_workers al \<Longrightarrow> \<exists>ws. finish_workers cfg al = Inr ws"
proof (induction al)
  case Nil
  then show ?case by simp
next
  case (Cons nw al)
  obtain nm w where nw: "nw = (nm, w)" by (cases nw)
  from Cons.prems(2) have w: "0 \<le> accepted w" "0 \<le> rejected w"
    "accepted w + rejected w < 2 ^ 53" "small_total (last_10_shares w)"
    and rest: "small_workers al"
    by (auto simp: small_workers_def nw)
  from worker_hashrate_total[OF Cons.prems(1) w(4)] obtain r where "worker_hashrate cfg w = Inr r" ..
  moreover from worker_efficiency_total[OF w(1-3)] obtain eff where "worker_efficiency w = Inr eff" ..
  ultimately have "\<exists>s. finish_worker cfg nw = Inr s"
    by (simp add: finish_worker_def and_then_def nw)
  moreover from Cons.IH[OF Cons.prems(1) rest] obtain ws where "finish_workers cfg al = Inr ws" ..
  ultimately show ?case by auto
qed

lemma demo_accumulate:
  "accumulate_workers demo_store demo_now ''addr1'' =
     [(''rig1'', \<lparr>accepted = 29, rejected = 71, last_10_shares = 29, online = False, server = None\<rparr>),
      (''rig2'', \<lparr>accepted = 0, rejected = 0, last_10_shares = 0, online = True, server = Some []\<rparr>)]"
  by (simp add: accumulate_workers_def demo_store_def demo_rows_def get_typ_def demo_slice_def
      demo_now_def demo_stamp_def hours_def minutes_def add_share_def add_reject_def add_online_def
      setdefault_def change_def def_worker_def)

lemma demo_hashrate:
  "worker_hashrate demo_cfg
     \<lparr>accepted = 29, rejected = 71, last_10_shares = 29, online = False, server = None\<rparr>
     = Inr (Fin (7303926826838385 / 2305843009213693952))"
  "worker_hashrate demo_cfg
     \<lparr>accepted = 0, rejected = 0, last_10_shares = 0, online = True, server = Some []\<rparr>
     = Inr (Fin 0)"
  by (simp_all add: worker_hashrate_def shares_to_hashes_def demo_cfg_def
      hashrate_eval_29 hashrate_eval_0)

lemma demo_efficiency:
  "worker_efficiency
     \<lparr>accepted = 29, rejected = 71, last_10_shares = 29, online = False, server = None\<rparr>
     = Inr (Some (Fin (8162774324609023 / 281474976710656)))"
  "worker_efficiency
     \<lparr>accepted = 0, rejected = 0, last_10_shares = 0, online = True, server = Some []\<rparr>
     = Inr None"
  by (simp_all add: worker_efficiency_def and_then_def float_of_int_numeral efficiency_eval_29_71
      del: fmul.simps)

lemma demo_finish:
  "finish_worker demo_cfg
     (''rig1'', \<lparr>accepted = 29, rejected = 71, last_10_shares = 29, online = False, server = None\<rparr>)
     = Inr demo_rig1"
  "finish_worker demo_cfg
     (''rig2'', \<lparr>accepted = 0, rejected = 0, last_10_shares = 0, online = True, server = Some []\<rparr>)
     = Inr demo_rig2"
  by (simp_all add: finish_worker_def demo_hashrate demo_efficiency and_then_def
      worker_acc.extend_def demo_rig1_def demo_rig2_def)

lemma demo_collect:
  "collect_user_stats_workers demo_store demo_cfg demo_now ''addr1'' = Inr [demo_rig1, demo_rig2]"
  by (simp add: collect_user_stats_workers_def demo_accumulate demo_finish)
    (simp add: demo_rig1_def demo_rig2_def)

lemma demo_small:
  "small_config demo_cfg" "small_workers (accumulate_workers demo_store demo_now ''addr1'')"
  by (simp_all add: small_config_def demo_cfg_def demo_accumulate small_workers_def small_total_def)

text \<open>
  C8. In the workers that \<open>collect_user_stats\<close> reports, a worker whose accepted and
  rejected totals are both zero has the efficiency \<open>None\<close>; a worker with nonnegative
  totals, not both zero, whose sum is below \<open>2 ^ 53\<close> has the double
  \<open>100.0 * (float(a) / (a + r))\<close>, which differs from 100 * accepted / (accepted + rejected)
  by at most a relative \<open>2 ^ 51\<close>-th; and when the accumulated totals and the configured
  hashes per share are such totals the function returns its list and raises nothing. The
  efficiency is not the quotient itself: for 29 accepted and 71 rejected it is
  28.999999999999996.
\<close>

theorem collect_user_stats_efficiency:
  "(\<forall>ws w. collect_user_stats_workers db cfg now address = Inr ws \<and> w \<in> set ws \<longrightarrow>
      (accepted w = 0 \<and> rejected w = 0 \<longrightarrow> efficiency w = None) \<and>
      (0 \<le> accepted w \<and> 0 \<le> rejected w \<and> (accepted w \<noteq> 0 \<or> rejected w \<noteq> 0)
       \<and> accepted w + rejected w < 2 ^ 53 \<longrightarrow>
         (\<exists>x. efficiency w = Some (Fin x)
            \<and> \<bar>x - 100 * of_int (accepted w) / of_int (accepted w + rejected w)\<bar>
                \<le> 100 * of_int (accepted w) / of_int (accepted w + rejected w) / 2 ^ 51)))
   \<and> (small_config cfg \<and> small_workers (accumulate_workers db now address) \<longrightarrow>
        (\<exists>ws. collect_user_stats_workers db cfg now address = Inr ws))"
proof (intro conjI allI impI)
  fix ws w
  assume h: "collect_user_stats_workers db cfg now address = Inr ws \<and> w \<in> set ws"
  then obtain v where v: "accepted w = accepted v" "rejected w = rejected v"
    "worker_efficiency v = Inr (efficiency w)"
    using collect_member[of db cfg now address ws w] by blast
  {
    assume "accepted w = 0 \<and> rejected w = 0"
    with v show "efficiency w = None" by (simp add: worker_efficiency_none)
  }
  {
    assume "0 \<le> accepted w \<and> 0 \<le> rejected w \<and> (accepted w \<noteq> 0 \<or> rejected w \<noteq> 0)
       \<and> accepted w + rejected w < 2 ^ 53"
    then have "0 \<le> accepted v" "0 \<le> rejected v" "accepted v \<noteq> 0 \<or> rejected v \<noteq> 0"
      "accepted v + rejected v < 2 ^ 53" using v by auto
    from worker_efficiency_accuracy[OF this] v
    show "\<exists>x. efficiency w = Some (Fin x)
            \<and> \<bar>x - 100 * of_int (accepted w) / of_int (accepted w + rejected w)\<bar>
                \<le> 100 * of_int (accepted w) / of_int (accepted w + rejected w) / 2 ^ 51"
      by auto
  }
next
  assume "small_config cfg \<and> small_workers (accumulate_workers db now address)"
  then show "\<exists>ws. collect_user_stats_workers db cfg now address = Inr ws"
    using finish_workers_total[of cfg "accumulate_workers db now address"]
    by (auto simp: collect_user_stats_workers_def)
qed

theorem collect_user_stats_efficiency_witness:
  "collect_user_stats_workers demo_store demo_cfg demo_now ''addr1'' = Inr [demo_rig1, demo_rig2]
   \<and> small_config demo_cfg
   \<and> small_workers (accumulate_workers demo_store demo_now ''addr1'')
   \<and> accepted demo_rig1 = 29 \<and> rejected demo_rig1 = 71
   \<and> (\<exists>x. efficiency demo_rig1 = Some (Fin x)
          \<and> \<bar>x - 100 * 29 / (29 + 71)\<bar> \<le> 100 * 29 / (29 + 71) / 2 ^ 51)
   \<and> accepted demo_rig2 = 0 \<and> rejected demo_rig2 = 0 \<and> efficiency demo_rig2 = None"
  using collect_user_stats_efficiency[of demo_store demo_cfg demo_now "''addr1''"]
    demo_collect demo_small
  by (simp add: demo_rig1_def demo_rig2_def)

theorem collect_user_stats_efficiency_not_exact:
  "collect_user_stats_workers demo_store demo_cfg demo_now ''addr1'' = Inr [demo_rig1, demo_rig2]
   \<and> accepted demo_rig1 = 29 \<and> rejected demo_rig1 = 71
   \<and> efficiency demo_rig1 \<noteq> Some (Fin (100 * 29 / (29 + 71)))"
  by (simp add: demo_collect) (simp add: demo_rig1_def)

text \<open>
  C10. For every reported worker with nonnegative accepted and rejected totals, an
  efficiency that is present is a finite double between 0 and 100.
\<close>

theorem collect_user_stats_efficiency_range:
  assumes "collect_user_stats_workers db cfg now address = Inr ws" "w \<in> set ws"
    and "0 \<le> accepted w" "0 \<le> rejected w" "efficiency w = Some e"
  shows "\<exists>x. e = Fin x \<and> 0 \<le> x \<and> x \<le> 100"
proof -
  from collect_member[OF assms(1,2)] obtain v where v: "accepted w = accepted v"
    "rejected w = rejected v" "worker_efficiency v = Inr (efficiency w)" by blast
  then have "worker_efficiency v = Inr (Some e)" "0 \<le> accepted v" "0 \<le> rejected v"
    using assms(3-5) by simp_all
  then show ?thesis by (rule worker_efficiency_range)
qed

theorem collect_user_stats_efficiency_range_witness:
  "collect_user_stats_workers demo_store demo_cfg demo_now ''addr1'' = Inr [demo_rig1, demo_rig2]
   \<and> demo_rig1 \<in> set [demo_rig1, demo_rig2]
   \<and> 0 \<le> accepted demo_rig1 \<and> 0 \<le> rejected demo_rig1
   \<and> efficiency demo_rig1 = Some (Fin (8162774324609023 / 281474976710656))
   \<and> (0::rat) \<le> 8162774324609023 / 281474976710656
   \<and> (8162774324609023 / 281474976710656 :: rat) \<le> 100"
  using collect_user_stats_efficiency_range[OF demo_collect, of demo_rig1
      "Fin (8162774324609023 / 281474976710656)"] demo_collect
  by (simp add: demo_rig1_def)

section \<open>Properties of verify_message\<close>

lemma demo_env_sel:
  "strptime demo_env = (\<lambda>s. if s = ''2024-01-01 00:00:00.000 UTC'' then Some demo_stamp else None)"
  "check_valid_currency demo_env = Some btc_only"
  "unicode_escape demo_env = Some"
  "UserSettings_update demo_env = (\<lambda>address args db. Updated ((address, args) # db))"
  by (simp_all add: demo_env_def)

lemma shipped_env_sel:
  "strptime shipped_env = strptime demo_env"
  "check_valid_currency shipped_env = None"
  "unicode_escape shipped_env = Some"
  "UserSettings_update shipped_env = (\<lambda>address args db. Updated ((address, args) # db))"
  by (simp_all add: shipped_env_def demo_env_def)

lemma demo_parse: "parse_message (strptime demo_env) demo_message = Inr demo_parsed"
  by (simp add: parse_message_def demo_message_def demo_env_sel split_str_def parse_line_def
      index_def initial_state_def demo_parsed_def demo_kwargs_def)

lemma donate_parse: "parse_message (strptime demo_env) donate_message = Inr donate_parsed"
  by (simp add: parse_message_def donate_message_def demo_env_sel split_str_def parse_line_def
      index_def initial_state_def donate_parsed_def donate_only_def)

lemma demo_parsed_sel:
  "stamp demo_parsed = Some demo_stamp"
  "site demo_parsed = Some ''PoolSite''"
  "updates demo_parsed = demo_kwargs ''1A1zP1eP5QGefi2DMPTfTL5SLmv7DivfNa'' (PyInt 0)"
  "stamp donate_parsed = Some demo_stamp"
  "site donate_parsed = Some ''PoolSite''"
  "updates donate_parsed = donate_only (PyStr ''5'')"
  by (simp_all add: demo_parsed_def donate_parsed_def)

text \<open>
  The seconds component of a \<open>timedelta\<close> is below 86400, so with the default
  \<open>message_expiry\<close> of 90660 the test of line 459 never fires; and a stamp one second in the
  future has the seconds component 86399, so a configured limit of an hour rejects it.
\<close>

lemma too_old_default_never: "message_expiry cfg = None \<Longrightarrow> \<not> too_old cfg now st"
proof -
  have "td_seconds (now - st) < 86400" "0 \<le> td_seconds (now - st)"
    by (simp_all add: td_seconds_def)
  then show "message_expiry cfg = None \<Longrightarrow> \<not> too_old cfg now st"
    by (simp add: too_old_def)
qed

lemma too_old_future:
  "too_old (demo_cfg\<lparr>message_expiry := Some 3600\<rparr>) demo_stamp (demo_stamp + 1000000)"
  by (simp add: too_old_def td_seconds_def demo_cfg_def demo_stamp_def)

lemma demo_not_too_old: "\<not> too_old demo_cfg now demo_stamp"
  by (rule too_old_default_never) (simp add: demo_cfg_def)

lemma demo_site_ok: "\<not> wrong_site demo_cfg (Some ''PoolSite'')"
  by (simp add: wrong_site_def demo_cfg_def)

lemma demo_oracle:
  "call_verifymessage demo_env (demo_curr answer) address signature message = Inr answer"
  "call_verifymessage shipped_env (demo_curr answer) address signature message = Inr answer"
  by (simp_all add: call_verifymessage_def demo_env_sel shipped_env_sel demo_curr_def)

lemma demo_validate:
  "validate_message_vals (Some btc_only)
     (demo_kwargs ''1A1zP1eP5QGefi2DMPTfTL5SLmv7DivfNa'' (PyInt 0)) = Inr demo_args"
  by (simp add: validate_message_vals_def demo_kwargs_def demo_args_def btc_only_def decimal_defs)

lemma donate_validate:
  "validate_message_vals chk (donate_only (PyStr ''5'')) = Inr donate_args"
  by (simp add: validate_message_vals_def donate_only_def donate_args_def decimal_defs)

lemma demo_verify:
  "verify_message demo_env demo_cfg now s demo_address (demo_curr answer) demo_message signature =
     (if answer
      then (Inr (), \<lparr>committed = (demo_address, demo_args) # pending s,
                     pending = (demo_address, demo_args) # pending s\<rparr>)
      else (Inl (CommandException msg_invalid_signature), s))"
  by (simp add: verify_message_def demo_parse demo_parsed_sel demo_not_too_old demo_site_ok
      demo_oracle demo_validate demo_env_sel(2-4) commit_def)

lemma donate_verify:
  "verify_message shipped_env demo_cfg now s demo_address (demo_curr True) donate_message signature =
     (Inr (), \<lparr>committed = (demo_address, donate_args) # pending s,
               pending = (demo_address, donate_args) # pending s\<rparr>)"
  by (simp add: verify_message_def shipped_env_sel(1) donate_parse demo_parsed_sel
      demo_not_too_old demo_site_ok demo_oracle donate_validate shipped_env_sel(2-4) commit_def)

text \<open>
  C1. A message whose timestamp is older than the configured maximum age is not rejected:
  line 459 reads \<open>(now - stamp).seconds\<close>, the seconds component of the difference, where
  the whole span (\<open>total_seconds()\<close>, as \<open>get_adj_round_shares\<close> uses) is meant. With the
  default limit of 90660 seconds and a signature the oracle accepts, a message stamped 26
  hours before the call is verified and committed: the donation message on utils.py as it
  stands, and the specification's example message once \<open>check_valid_currency\<close> is bound.
\<close>

theorem verify_message_26_hours_old_accepted:
  "verify_message shipped_env demo_cfg (demo_stamp + hours 26) demo_session
     demo_address (demo_curr True) donate_message ''sig''
   = (Inr (), \<lparr>committed = [(demo_address, donate_args)],
                pending = [(demo_address, donate_args)]\<rparr>)
   \<and> verify_message demo_env demo_cfg (demo_stamp + hours 26) demo_session
     demo_address (demo_curr True) demo_message ''sig''
   = (Inr (), \<lparr>committed = [(demo_address, demo_args)], pending = [(demo_address, demo_args)]\<rparr>)"
  by (simp add: demo_verify donate_verify demo_session_def)

text \<open>
  C2. When the oracle is reached and answers false, \<open>verify_message\<close> raises the
  \<open>CommandException\<close> "Invalid signature! Coinserver returned False" and the session is
  as it was; and whenever \<open>verify_message\<close> raises, on any path, the committed settings
  are the ones before the call and the session is either untouched or rolled back to
  them.
\<close>

theorem verify_message_no_partial_commit:
  "(unicode_escape e message = Some decoded \<and>
    coinserv_verifymessage cur address signature decoded = RpcReturn False \<and>
    parse_message (strptime e) message = Inr st \<and> stamp st = Some t \<and>
    \<not> too_old cfg now t \<and> \<not> wrong_site cfg (site st) \<longrightarrow>
      verify_message e cfg now s address cur message signature =
        (Inl (CommandException msg_invalid_signature), s))
   \<and> (\<forall>err s'. verify_message e cfg now s address cur message signature = (Inl err, s') \<longrightarrow>
        committed s' = committed s \<and> (s' = s \<or> pending s' = committed s))"
proof (intro conjI impI allI)
  assume "unicode_escape e message = Some decoded \<and>
    coinserv_verifymessage cur address signature decoded = RpcReturn False \<and>
    parse_message (strptime e) message = Inr st \<and> stamp st = Some t \<and>
    \<not> too_old cfg now t \<and> \<not> wrong_site cfg (site st)"
  then show "verify_message e cfg now s address cur message signature =
        (Inl (CommandException msg_invalid_signature), s)"
    by (simp add: verify_message_def call_verifymessage_def)
next
  fix err s'
  assume "verify_message e cfg now s address cur message signature = (Inl err, s')"
  then show "committed s' = committed s"
    by (auto simp: verify_message_def rollback_def commit_def
        split: sum.splits option.splits if_splits update_result.splits)
next
  fix err s'
  assume "verify_message e cfg now s address cur message signature = (Inl err, s')"
  then show "s' = s \<or> pending s' = committed s"
    by (auto simp: verify_message_def rollback_def commit_def
        split: sum.splits option.splits if_splits update_result.splits)
qed

theorem verify_message_no_partial_commit_witness:
  "unicode_escape demo_env demo_message = Some demo_message
   \<and> coinserv_verifymessage (demo_curr False) demo_address ''sig'' demo_message = RpcReturn False
   \<and> parse_message (strptime demo_env) demo_message = Inr demo_parsed
   \<and> stamp demo_parsed = Some demo_stamp
   \<and> \<not> too_old demo_cfg (demo_stamp + hours 1) demo_stamp
   \<and> \<not> wrong_site demo_cfg (site demo_parsed)
   \<and> verify_message demo_env demo_cfg (demo_stamp + hours 1) demo_session
        demo_address (demo_curr False) demo_message ''sig''
      = (Inl (CommandException msg_invalid_signature), demo_session)
   \<and> committed demo_session = []"
  using verify_message_no_partial_commit[where e = demo_env and message = demo_message
      and decoded = demo_message and cur = "demo_curr False" and address = demo_address
      and signature = "''sig''" and st = demo_parsed and t = demo_stamp and cfg = demo_cfg
      and now = "demo_stamp + hours 1" and s = demo_session]
    demo_parse demo_not_too_old[of "demo_stamp + hours 1"] demo_site_ok
  by (simp add: demo_parsed_sel demo_env_sel(3) demo_curr_def demo_session_def)

end
